theory Spec2Isabelle
  imports Complex_Main "HOL-Library.AList"
begin

section \<open>Python values\<close>

text \<open>
  The gallery manager moves untyped Python values between its callers and the document
  store: \<open>doc.get(...)\<close> returns whatever the document holds. A value is one of the
  JSON-like shapes below. A float is only stored and compared here, never computed with,
  and is represented by a real number.
\<close>

datatype pyval =
    PNone
  | PBool bool
  | PInt int
  | PFloat real
  | PStr string
  | PList "pyval list"
  | PTuple "pyval list"
  | PDict "(string \<times> pyval) list"

datatype error =
    AttributeError
  | TypeError
  | OSError
  | RuntimeError
  | OverflowError
  | InvalidDocument
  | InvalidId
  | DuplicateKeyError
  | WriteError
  | ConnectionFailure

text \<open>Python's \<open>bool(x)\<close>.\<close>

fun truthy :: "pyval \<Rightarrow> bool" where
  "truthy PNone = False"
| "truthy (PBool b) = b"
| "truthy (PInt i) = (i \<noteq> 0)"
| "truthy (PFloat r) = (r \<noteq> 0)"
| "truthy (PStr s) = (s \<noteq> [])"
| "truthy (PList xs) = (xs \<noteq> [])"
| "truthy (PTuple xs) = (xs \<noteq> [])"
| "truthy (PDict kvs) = (kvs \<noteq> [])"

text \<open>Python's \<open>a or b\<close>.\<close>

definition py_or :: "pyval \<Rightarrow> pyval \<Rightarrow> pyval" where
  "py_or a b = (if truthy a then a else b)"

text \<open>\<open>isinstance(x, dict)\<close>.\<close>

fun is_dict :: "pyval \<Rightarrow> bool" where
  "is_dict (PDict kvs) = True"
| "is_dict v = False"

text \<open>
  \<open>x.get(key, default)\<close>: only a dict has the method; on any other value of this
  model the attribute lookup raises.
\<close>

fun py_get :: "pyval \<Rightarrow> string \<Rightarrow> pyval \<Rightarrow> error + pyval" where
  "py_get (PDict kvs) k dflt = Inr (case map_of kvs k of None \<Rightarrow> dflt | Some v \<Rightarrow> v)"
| "py_get v k dflt = Inl AttributeError"

text \<open>
  The elements that \<open>list(x)\<close> and \<open>tuple(x)\<close> iterate over: a list or tuple gives
  its elements, a string its characters, a dict its keys, anything else is not iterable.
\<close>

fun py_iter :: "pyval \<Rightarrow> error + pyval list" where
  "py_iter (PList xs) = Inr xs"
| "py_iter (PTuple xs) = Inr xs"
| "py_iter (PStr s) = Inr (map (\<lambda>c. PStr [c]) s)"
| "py_iter (PDict kvs) = Inr (map (\<lambda>kv. PStr (fst kv)) kvs)"
| "py_iter v = Inl TypeError"

definition py_list :: "pyval \<Rightarrow> error + pyval" where
  "py_list v = (case py_iter v of Inl e \<Rightarrow> Inl e | Inr xs \<Rightarrow> Inr (PList xs))"

definition py_tuple :: "pyval \<Rightarrow> error + pyval" where
  "py_tuple v = (case py_iter v of Inl e \<Rightarrow> Inl e | Inr xs \<Rightarrow> Inr (PTuple xs))"

section \<open>GalleryItem\<close>

record GalleryItem =
  item_id :: string
  user_id :: pyval
  diary_text :: pyval
  emotion_keywords :: pyval
  vad_scores :: pyval
  reflection_prompt :: pyval
  reflection_image_path :: pyval
  artwork_title :: pyval
  docent_message :: pyval
  message_reactions :: pyval
  guided_question :: pyval
  created_date :: pyval
  coping_style :: pyval
  diary_id :: pyval
  gpt_prompt_used :: pyval
  gpt_prompt_tokens :: pyval
  gpt_docent_used :: pyval
  gpt_docent_tokens :: pyval
  prompt_generation_time :: pyval
  prompt_generation_method :: pyval
  docent_generation_method :: pyval

text \<open>
  \<open>GalleryItem.__init__\<close>. Three arguments are replaced when falsy: the docent
  message by \<open>{}\<close>, the reactions by \<open>[]\<close>, the creation date by the current time
  \<open>now\<close> (the value of \<open>datetime.now().isoformat()\<close>, an input of the model).
\<close>

definition GalleryItem_init ::
  "string \<Rightarrow> string \<Rightarrow> pyval \<Rightarrow> pyval \<Rightarrow> pyval \<Rightarrow> pyval \<Rightarrow> pyval \<Rightarrow> pyval \<Rightarrow> pyval \<Rightarrow> pyval \<Rightarrow>
   pyval \<Rightarrow> pyval \<Rightarrow> pyval \<Rightarrow> pyval \<Rightarrow> pyval \<Rightarrow> pyval \<Rightarrow> pyval \<Rightarrow> pyval \<Rightarrow> pyval \<Rightarrow> pyval \<Rightarrow>
   pyval \<Rightarrow> pyval \<Rightarrow> GalleryItem" where
  "GalleryItem_init now a_item_id a_user_id a_diary_text a_emotion_keywords a_vad_scores
     a_reflection_prompt a_reflection_image_path a_artwork_title a_docent_message
     a_message_reactions a_guided_question a_created_date a_coping_style a_diary_id
     a_gpt_prompt_used a_gpt_prompt_tokens a_gpt_docent_used a_gpt_docent_tokens
     a_prompt_generation_time a_prompt_generation_method a_docent_generation_method =
   \<lparr> item_id = a_item_id,
     user_id = a_user_id,
     diary_text = a_diary_text,
     emotion_keywords = a_emotion_keywords,
     vad_scores = a_vad_scores,
     reflection_prompt = a_reflection_prompt,
     reflection_image_path = a_reflection_image_path,
     artwork_title = a_artwork_title,
     docent_message = py_or a_docent_message (PDict []),
     message_reactions = py_or a_message_reactions (PList []),
     guided_question = a_guided_question,
     created_date = py_or a_created_date (PStr now),
     coping_style = a_coping_style,
     diary_id = a_diary_id,
     gpt_prompt_used = a_gpt_prompt_used,
     gpt_prompt_tokens = a_gpt_prompt_tokens,
     gpt_docent_used = a_gpt_docent_used,
     gpt_docent_tokens = a_gpt_docent_tokens,
     prompt_generation_time = a_prompt_generation_time,
     prompt_generation_method = a_prompt_generation_method,
     docent_generation_method = a_docent_generation_method \<rparr>"

text \<open>
  \<open>get_completion_status\<close> returns a dict with four fixed keys; the record below has
  one field for each key.
\<close>

record completion_status =
  st_reflection :: bool
  st_artwork_title :: bool
  st_docent_message :: bool
  st_completed :: bool

definition get_completion_status :: "GalleryItem \<Rightarrow> completion_status" where
  "get_completion_status self =
   \<lparr> st_reflection = truthy (reflection_image_path self),
     st_artwork_title = truthy (artwork_title self),
     st_docent_message =
       (truthy (docent_message self) \<and> is_dict (docent_message self)
        \<and> truthy (docent_message self)),
     st_completed =
       (truthy (docent_message self) \<and> is_dict (docent_message self)
        \<and> truthy (docent_message self)) \<rparr>"

definition get_next_step :: "GalleryItem \<Rightarrow> string" where
  "get_next_step self =
   (let status = get_completion_status self in
    if \<not> st_reflection status then ''reflection''
    else if \<not> st_artwork_title status then ''artwork_title''
    else if \<not> st_docent_message status then ''docent_message''
    else ''completed'')"

section \<open>The document store\<close>

text \<open>
  The collection \<open>gallery_items\<close> is a sequence of documents. A document has its
  primary key \<open>_id\<close>, kept here as the string that \<open>str(doc["_id"])\<close> returns (the
  24 hex digits of the ObjectId), and its other fields in insertion order. Values are
  stored in the form the driver encodes them to. The store is either reachable or not; when
  it is not, every operation on the collection raises. The driver and the server also refuse
  some documents for reasons that are not looked into here (a document over the size limit,
  a field name that is not allowed, values nested too deep): \<open>refuses\<close> says which
  fields, once encoded, are refused, and a write of such fields raises with nothing written.
  The world also holds the image files written so far, whether an event loop is running in
  the calling thread, and the synchronisation tasks handed to that loop, which nothing
  awaits.
\<close>

record doc =
  doc_oid :: string
  doc_fields :: "(string \<times> pyval) list"

datatype sync_task =
    UpdateEmotionData string pyval pyval
  | UpdateDocentData string

record world =
  gallery_items :: "doc list"
  online :: bool
  refuses :: "(string \<times> pyval) list \<Rightarrow> bool"
  image_files :: "(string \<times> string) list"
  loop_running :: bool
  tasks :: "sync_task list"

text \<open>\<open>doc.get(key, default)\<close> on a document of the collection.\<close>

definition doc_get :: "doc \<Rightarrow> string \<Rightarrow> pyval \<Rightarrow> pyval" where
  "doc_get d k dflt = (case map_of (doc_fields d) k of None \<Rightarrow> dflt | Some v \<Rightarrow> v)"

text \<open>
  \<open>ObjectId(s)\<close> accepts a string of 24 hex digits and raises \<open>InvalidId\<close> on any
  other string; its \<open>str\<close> is in lower case.
\<close>

definition is_hex :: "char \<Rightarrow> bool" where
  "is_hex c = (c \<in> set ''0123456789abcdefABCDEF'')"

definition hex_lower :: "char \<Rightarrow> char" where
  "hex_lower c =
    (if c = CHR ''A'' then CHR ''a'' else if c = CHR ''B'' then CHR ''b''
     else if c = CHR ''C'' then CHR ''c'' else if c = CHR ''D'' then CHR ''d''
     else if c = CHR ''E'' then CHR ''e'' else if c = CHR ''F'' then CHR ''f'' else c)"

definition ObjectId :: "string \<Rightarrow> error + string" where
  "ObjectId s =
    (if length s = 24 \<and> list_all is_hex s then Inr (map hex_lower s) else Inl InvalidId)"

definition has_oid :: "string \<Rightarrow> doc \<Rightarrow> bool" where
  "has_oid oid d = (doc_oid d = oid)"

definition has_item_id :: "string \<Rightarrow> doc \<Rightarrow> bool" where
  "has_item_id iid d = (map_of (doc_fields d) ''item_id'' = Some (PStr iid))"

text \<open>\<open>find_one({"_id": oid})\<close> and \<open>find_one({"item_id": iid})\<close>.\<close>

definition find_one_by_oid :: "world \<Rightarrow> string \<Rightarrow> error + doc option" where
  "find_one_by_oid w oid =
    (if online w then Inr (find (has_oid oid) (gallery_items w)) else Inl ConnectionFailure)"

definition find_one_by_item_id :: "world \<Rightarrow> string \<Rightarrow> error + doc option" where
  "find_one_by_item_id w iid =
    (if online w then Inr (find (has_item_id iid) (gallery_items w))
     else Inl ConnectionFailure)"

text \<open>
  The driver's encoding of a value on its way to the store. An integer must fit in 64
  bits, or the encoder raises \<open>OverflowError\<close>; a key must not contain the NUL
  character, or the encoder raises \<open>InvalidDocument\<close>; a tuple is written as an
  array and comes back as a list; every other value is kept, its parts encoded in turn.
\<close>

fun bson_encode :: "pyval \<Rightarrow> error + pyval"
  and bson_encode_list :: "pyval list \<Rightarrow> error + pyval list"
  and bson_encode_items :: "(string \<times> pyval) list \<Rightarrow> error + (string \<times> pyval) list" where
  "bson_encode PNone = Inr PNone"
| "bson_encode (PBool b) = Inr (PBool b)"
| "bson_encode (PInt i) =
    (if - (2 ^ 63) \<le> i \<and> i < 2 ^ 63 then Inr (PInt i) else Inl OverflowError)"
| "bson_encode (PFloat r) = Inr (PFloat r)"
| "bson_encode (PStr s) = Inr (PStr s)"
| "bson_encode (PList xs) =
    (case bson_encode_list xs of Inl err \<Rightarrow> Inl err | Inr ys \<Rightarrow> Inr (PList ys))"
| "bson_encode (PTuple xs) =
    (case bson_encode_list xs of Inl err \<Rightarrow> Inl err | Inr ys \<Rightarrow> Inr (PList ys))"
| "bson_encode (PDict kvs) =
    (case bson_encode_items kvs of Inl err \<Rightarrow> Inl err | Inr kvs' \<Rightarrow> Inr (PDict kvs'))"
| "bson_encode_list [] = Inr []"
| "bson_encode_list (x # xs) =
    (case bson_encode x of
       Inl err \<Rightarrow> Inl err
     | Inr y \<Rightarrow>
        (case bson_encode_list xs of Inl err \<Rightarrow> Inl err | Inr ys \<Rightarrow> Inr (y # ys)))"
| "bson_encode_items [] = Inr []"
| "bson_encode_items ((k, v) # kvs) =
    (if CHR 0x00 \<in> set k then Inl InvalidDocument
     else case bson_encode v of
       Inl err \<Rightarrow> Inl err
     | Inr v' \<Rightarrow>
        (case bson_encode_items kvs of
           Inl err \<Rightarrow> Inl err
         | Inr kvs' \<Rightarrow> Inr ((k, v') # kvs')))"

text \<open>
  \<open>insert_one(doc)\<close> with the key \<open>oid\<close> the driver generates. A document that
  cannot be encoded, or that is refused, raises and nothing is written. The primary key is
  unique, and \<open>_ensure_indexes\<close> declares a unique index on \<open>item_id\<close>: a document
  with the same key or the same \<open>item_id\<close> makes the insert raise.
\<close>

definition insert_one ::
  "world \<Rightarrow> string \<Rightarrow> (string \<times> pyval) list \<Rightarrow> error + (string \<times> world)" where
  "insert_one w oid fs =
    (if \<not> online w then Inl ConnectionFailure
     else case bson_encode_items fs of
       Inl err \<Rightarrow> Inl err
     | Inr fs' \<Rightarrow>
        (if refuses w fs' then Inl WriteError
         else if list_ex (\<lambda>d. doc_oid d = oid
                 \<or> map_of (doc_fields d) ''item_id'' = map_of fs' ''item_id'') (gallery_items w)
         then Inl DuplicateKeyError
         else Inr (oid, w\<lparr>gallery_items :=
                 gallery_items w @ [\<lparr>doc_oid = oid, doc_fields = fs'\<rparr>]\<rparr>)))"

text \<open>The \<open>$set\<close> operator: each pair overwrites the field or appends it.\<close>

definition set_fields :: "(string \<times> pyval) list \<Rightarrow> doc \<Rightarrow> doc" where
  "set_fields kvs d =
    d\<lparr>doc_fields := fold (\<lambda>kv fs. AList.update (fst kv) (snd kv) fs) kvs (doc_fields d)\<rparr>"

text \<open>
  \<open>update_one(filter, {"$set": kvs})\<close> encodes the values (raising when one cannot be
  encoded, with nothing written), changes the first document that matches and reports in
  \<open>modified_count\<close> whether that document changed: 0 when no document matches and 0
  when the matching document already holds the values. It raises, with nothing written,
  when the values to set are refused or the document they would give is.
\<close>

fun update_first :: "(doc \<Rightarrow> bool) \<Rightarrow> (doc \<Rightarrow> doc) \<Rightarrow> doc list \<Rightarrow> doc list \<times> nat" where
  "update_first P f [] = ([], 0)"
| "update_first P f (d # ds) =
    (if P d then (if f d = d then (d # ds, 0) else (f d # ds, 1))
     else (d # fst (update_first P f ds), snd (update_first P f ds)))"

definition update_one ::
  "world \<Rightarrow> string \<Rightarrow> (string \<times> pyval) list \<Rightarrow> error + (nat \<times> world)" where
  "update_one w iid kvs =
    (if online w then
       (case bson_encode_items kvs of
          Inl err \<Rightarrow> Inl err
        | Inr kvs' \<Rightarrow>
           (if refuses w kvs'
               \<or> (case find (has_item_id iid) (gallery_items w) of
                     None \<Rightarrow> False
                   | Some d \<Rightarrow> refuses w (doc_fields (set_fields kvs' d)))
            then Inl WriteError
            else
              Inr (snd (update_first (has_item_id iid) (set_fields kvs') (gallery_items w)),
                   w\<lparr>gallery_items :=
                       fst (update_first (has_item_id iid) (set_fields kvs') (gallery_items w))\<rparr>)))
     else Inl ConnectionFailure)"

section \<open>GalleryManager\<close>

text \<open>
  The image handed to \<open>create_gallery_item\<close> is a \<open>PIL.Image\<close> whose data decodes
  (its content is opaque here), a \<open>PIL.Image\<close> whose data does not decode (a truncated
  file, opened lazily), or some other value, which has no \<open>save\<close> method.
\<close>

datatype image_arg = PILImage string | UndecodableImage | NotAnImage pyval

text \<open>
  \<open>reflection_image.save(path)\<close>. An undecodable image raises \<open>OSError\<close> when its
  data is loaded, before the file is opened. A decodable image is written unless the file
  system refuses: \<open>fault\<close> is the exception the file system raises for this path, if
  any (a directory that does not exist, a disk that is full), and then no file is left.
\<close>

definition image_save ::
  "world \<Rightarrow> error option \<Rightarrow> image_arg \<Rightarrow> string \<Rightarrow> error + world" where
  "image_save w fault img path =
    (case img of
       PILImage content \<Rightarrow>
         (case fault of
            Some err \<Rightarrow> Inl err
          | None \<Rightarrow> Inr (w\<lparr>image_files := AList.update path content (image_files w)\<rparr>))
     | UndecodableImage \<Rightarrow> Inl OSError
     | NotAnImage v \<Rightarrow> Inl AttributeError)"

text \<open>
  \<open>p / seg\<close> on POSIX paths, on their \<open>str\<close> form: an absolute segment replaces the
  path, an empty one leaves it, and the path \<open>.\<close> disappears before a segment. The
  removal of redundant separators inside a segment is not modelled.
\<close>

definition path_div :: "string \<Rightarrow> string \<Rightarrow> string" where
  "path_div p seg =
    (if seg = [] then p
     else if hd seg = CHR ''/'' then seg
     else if p = ''.'' then seg
     else if p = ''/'' then p @ seg
     else p @ ''/'' @ seg)"

text \<open>
  What one call of \<open>create_gallery_item\<close> reads from its environment: the two
  \<open>strftime\<close> stamps (file name and item id), the \<open>isoformat\<close> of the second
  \<open>datetime.now()\<close>, the ObjectId the driver generates for the insert, and what the
  file system raises when the image file is written, if anything.
\<close>

record env =
  file_stamp :: string
  item_stamp :: string
  created_iso :: string
  fresh_oid :: string
  save_fault :: "error option"

record EmoseumWebhookService =
  emoseum_server_url :: string

text \<open>\<open>diary_id\<close> is \<open>None\<close> or a string.\<close>

definition opt_str :: "string option \<Rightarrow> pyval" where
  "opt_str x = (case x of None \<Rightarrow> PNone | Some s \<Rightarrow> PStr s)"

text \<open>
  The document \<open>create_gallery_item\<close> builds, without its \<open>_id\<close>: title, docent
  message, reactions and guided question start empty.
\<close>

definition new_item_doc ::
  "string \<Rightarrow> string \<Rightarrow> string \<Rightarrow> pyval \<Rightarrow> pyval \<Rightarrow> string \<Rightarrow> string \<Rightarrow> string \<Rightarrow> string \<Rightarrow>
   string option \<Rightarrow> int \<Rightarrow> real \<Rightarrow> (string \<times> pyval) list" where
  "new_item_doc iid uid a_diary_text a_emotion_keywords vad_list a_reflection_prompt
     reflection_path now_iso a_coping_style a_diary_id a_gpt_prompt_tokens
     a_prompt_generation_time =
    [(''item_id'', PStr iid),
     (''user_id'', PStr uid),
     (''diary_text'', PStr a_diary_text),
     (''emotion_keywords'', a_emotion_keywords),
     (''vad_scores'', vad_list),
     (''reflection_prompt'', PStr a_reflection_prompt),
     (''reflection_image_path'', PStr reflection_path),
     (''artwork_title'', PStr []),
     (''docent_message'', PDict []),
     (''message_reactions'', PList []),
     (''guided_question'', PStr []),
     (''created_date'', PStr now_iso),
     (''coping_style'', PStr a_coping_style),
     (''diary_id'', opt_str a_diary_id),
     (''gpt_prompt_used'', PBool True),
     (''gpt_prompt_tokens'', PInt a_gpt_prompt_tokens),
     (''gpt_docent_used'', PBool True),
     (''gpt_docent_tokens'', PInt 0),
     (''prompt_generation_time'', PFloat a_prompt_generation_time),
     (''prompt_generation_method'', PStr ''gpt''),
     (''docent_generation_method'', PStr ''gpt'')]"

definition reflection_path_of :: "string \<Rightarrow> string \<Rightarrow> string \<Rightarrow> string" where
  "reflection_path_of images_dir uid stamp =
    path_div (path_div images_dir ''reflection'') (uid @ ''_'' @ stamp @ ''_reflection.png'')"

text \<open>
  \<open>create_gallery_item\<close>, with \<open>self.images_dir\<close> as first argument. The image is
  saved first; the document is built (\<open>list(vad_scores)\<close> is evaluated there) and
  inserted; with a webhook service and a truthy diary id the scores are listed again for
  the emotion-data task and \<open>asyncio.create_task\<close> hands the task to the running event
  loop, or raises \<open>RuntimeError\<close> when no loop is running. That call is inside the
  \<open>try\<close>, whose handler re-raises: the exception then leaves the function after the
  insert. An exception leaves the world as it was when raised, so the result pairs the
  outcome with the world.
\<close>

definition create_gallery_item ::
  "string \<Rightarrow> env \<Rightarrow> world \<Rightarrow> string \<Rightarrow> string \<Rightarrow> pyval \<Rightarrow> pyval \<Rightarrow> string \<Rightarrow> image_arg \<Rightarrow>
   string \<Rightarrow> int \<Rightarrow> real \<Rightarrow> string option \<Rightarrow> EmoseumWebhookService option \<Rightarrow>
   (error + string) \<times> world" where
  "create_gallery_item images_dir e w uid a_diary_text a_emotion_keywords a_vad_scores
     a_reflection_prompt reflection_image a_coping_style a_gpt_prompt_tokens
     a_prompt_generation_time a_diary_id emoseum_webhook_service =
   (let reflection_path = reflection_path_of images_dir uid (file_stamp e)
    in case image_save w (save_fault e) reflection_image reflection_path of
         Inl err \<Rightarrow> (Inl err, w)
       | Inr w1 \<Rightarrow>
          (let iid = uid @ ''-'' @ item_stamp e in
           case py_list a_vad_scores of
             Inl err \<Rightarrow> (Inl err, w1)
           | Inr vad_list \<Rightarrow>
              (case insert_one w1 (fresh_oid e)
                      (new_item_doc iid uid a_diary_text a_emotion_keywords vad_list
                         a_reflection_prompt reflection_path (created_iso e) a_coping_style
                         a_diary_id a_gpt_prompt_tokens a_prompt_generation_time) of
                 Inl err \<Rightarrow> (Inl err, w1)
               | Inr (mongo_id, w2) \<Rightarrow>
                  (if emoseum_webhook_service \<noteq> None \<and> truthy (opt_str a_diary_id) then
                     (case py_list a_vad_scores of
                        Inl err \<Rightarrow> (Inl err, w2)
                      | Inr vad_again \<Rightarrow>
                         (if loop_running w2 then
                            (Inr iid,
                             w2\<lparr>tasks := tasks w2 @
                                [UpdateEmotionData
                                   (case a_diary_id of None \<Rightarrow> [] | Some s \<Rightarrow> s)
                                   a_emotion_keywords vad_again]\<rparr>)
                          else (Inl RuntimeError, w2)))
                   else (Inr iid, w2)))))"

text \<open>
  \<open>complete_artwork_title\<close>: one \<open>update_one\<close> setting both fields; any exception
  gives \<open>False\<close>. The webhook argument is not used by the source.
\<close>

definition complete_artwork_title :: "world \<Rightarrow> string \<Rightarrow> string \<Rightarrow> string \<Rightarrow> bool \<times> world" where
  "complete_artwork_title w iid a_artwork_title a_guided_question =
    (case update_one w iid
            [(''artwork_title'', PStr a_artwork_title),
             (''guided_question'', PStr a_guided_question)] of
       Inl err \<Rightarrow> (False, w)
     | Inr (modified_count, w') \<Rightarrow> (modified_count > 0, w'))"

text \<open>
  The token count of a docent message:
  \<open>docent_message.get("metadata", {}).get("token_usage", {}).get("total_tokens", 0)\<close>.
\<close>

definition docent_tokens :: "pyval \<Rightarrow> error + pyval" where
  "docent_tokens dm =
    (case py_get dm ''metadata'' (PDict []) of
       Inl err \<Rightarrow> Inl err
     | Inr metadata \<Rightarrow>
        (case py_get metadata ''token_usage'' (PDict []) of
           Inl err \<Rightarrow> Inl err
         | Inr token_usage \<Rightarrow> py_get token_usage ''total_tokens'' (PInt 0)))"

text \<open>
  \<open>add_docent_message\<close>: the token count is extracted, one \<open>update_one\<close> sets the
  message and the count, and success is \<open>modified_count > 0\<close>. On success with a webhook
  service \<open>asyncio.create_task\<close> hands the docent-data task to the running event loop,
  or raises when no loop is running. Any exception gives \<open>False\<close>, this last one after
  the document was written.
\<close>

definition add_docent_message ::
  "world \<Rightarrow> string \<Rightarrow> pyval \<Rightarrow> EmoseumWebhookService option \<Rightarrow> bool \<times> world" where
  "add_docent_message w iid a_docent_message emoseum_webhook_service =
    (case docent_tokens a_docent_message of
       Inl err \<Rightarrow> (False, w)
     | Inr a_gpt_docent_tokens \<Rightarrow>
        (case update_one w iid
                [(''docent_message'', a_docent_message),
                 (''gpt_docent_tokens'', a_gpt_docent_tokens)] of
           Inl err \<Rightarrow> (False, w)
         | Inr (modified_count, w') \<Rightarrow>
            (if modified_count > 0 then
               (case emoseum_webhook_service of
                  None \<Rightarrow> (True, w')
                | Some svc \<Rightarrow>
                   (if loop_running w' then
                      (True, w'\<lparr>tasks := tasks w' @ [UpdateDocentData iid]\<rparr>)
                    else (False, w')))
             else (False, w'))))"

text \<open>\<open>_doc_to_gallery_item\<close>; \<open>tuple(...)\<close> raises on a value that is not iterable.\<close>

definition doc_to_gallery_item :: "string \<Rightarrow> doc \<Rightarrow> error + GalleryItem" where
  "doc_to_gallery_item now d =
    (case py_tuple (doc_get d ''vad_scores'' (PList [PFloat 0, PFloat 0, PFloat 0])) of
       Inl err \<Rightarrow> Inl err
     | Inr vad \<Rightarrow>
        Inr (GalleryItem_init now
          (doc_oid d)
          (doc_get d ''user_id'' (PStr []))
          (doc_get d ''diary_text'' (PStr []))
          (doc_get d ''emotion_keywords'' (PList []))
          vad
          (doc_get d ''reflection_prompt'' (PStr []))
          (doc_get d ''reflection_image_path'' (PStr []))
          (doc_get d ''artwork_title'' (PStr []))
          (doc_get d ''docent_message'' (PDict []))
          (doc_get d ''message_reactions'' (PList []))
          (doc_get d ''guided_question'' (PStr []))
          (doc_get d ''created_date'' (PStr []))
          (doc_get d ''coping_style'' (PStr ''balanced''))
          (doc_get d ''diary_id'' PNone)
          (doc_get d ''gpt_prompt_used'' (PBool True))
          (doc_get d ''gpt_prompt_tokens'' (PInt 0))
          (doc_get d ''gpt_docent_used'' (PBool True))
          (doc_get d ''gpt_docent_tokens'' (PInt 0))
          (doc_get d ''prompt_generation_time'' (PFloat 0))
          (doc_get d ''prompt_generation_method'' (PStr ''gpt''))
          (doc_get d ''docent_generation_method'' (PStr ''gpt''))))"

text \<open>
  \<open>get_gallery_item\<close>. The inner \<open>try\<close> looks the identifier up as an ObjectId; its
  bare \<open>except\<close> swallows every exception raised there, the conversion's too. The
  lookup by \<open>item_id\<close> follows unless the inner block returned, and the outer handler
  turns every exception into \<open>None\<close>.
\<close>

definition get_by_object_id :: "string \<Rightarrow> world \<Rightarrow> string \<Rightarrow> error + GalleryItem option" where
  "get_by_object_id now w iid =
    (case ObjectId iid of
       Inl err \<Rightarrow> Inl err
     | Inr oid \<Rightarrow>
        (case find_one_by_oid w oid of
           Inl err \<Rightarrow> Inl err
         | Inr None \<Rightarrow> Inr None
         | Inr (Some item_doc) \<Rightarrow>
            (case doc_to_gallery_item now item_doc of
               Inl err \<Rightarrow> Inl err
             | Inr it \<Rightarrow> Inr (Some it))))"

definition get_by_item_id :: "string \<Rightarrow> world \<Rightarrow> string \<Rightarrow> error + GalleryItem option" where
  "get_by_item_id now w iid =
    (case find_one_by_item_id w iid of
       Inl err \<Rightarrow> Inl err
     | Inr None \<Rightarrow> Inr None
     | Inr (Some item_doc) \<Rightarrow>
        (case doc_to_gallery_item now item_doc of
           Inl err \<Rightarrow> Inl err
         | Inr it \<Rightarrow> Inr (Some it)))"

definition get_gallery_item :: "string \<Rightarrow> world \<Rightarrow> string \<Rightarrow> GalleryItem option" where
  "get_gallery_item now w iid =
    (case get_by_object_id now w iid of
       Inr (Some it) \<Rightarrow> Some it
     | _ \<Rightarrow>
        (case get_by_item_id now w iid of
           Inl err \<Rightarrow> None
         | Inr r \<Rightarrow> r))"

section \<open>EmoseumWebhookService\<close>

text \<open>
  What the HTTP request of \<open>send_gallery_item_update\<close> can do: raise (the timeout of
  10 seconds raises \<open>asyncio.TimeoutError\<close>, a transport failure raises something
  else, with its message), or answer with a status. Reading the answer can raise too:
  \<open>response.json()\<close> when the body does not decode, \<open>response.text()\<close> when the
  transfer breaks.
\<close>

datatype exn = TimeoutError | OtherException string

datatype http_outcome =
    Response nat "exn + pyval" "exn + string"
  | Raised exn

text \<open>\<open>__init__\<close> strips the trailing slashes of the server URL.\<close>

definition rstrip_slash :: "string \<Rightarrow> string" where
  "rstrip_slash s = rev (dropWhile (\<lambda>c. c = CHR ''/'') (rev s))"

definition EmoseumWebhookService_init :: "string \<Rightarrow> EmoseumWebhookService" where
  "EmoseumWebhookService_init url = \<lparr> emoseum_server_url = rstrip_slash url \<rparr>"

text \<open>The decimal form of the status in \<open>f"HTTP {response.status}: ..."\<close>.\<close>

fun show_nat :: "nat \<Rightarrow> string" where
  "show_nat n =
    (if n < 10 then [''0123456789'' ! n]
     else show_nat (n div 10) @ [''0123456789'' ! (n mod 10)])"

definition webhook_url :: "EmoseumWebhookService \<Rightarrow> string" where
  "webhook_url self = emoseum_server_url self @ ''/api/ai/webhook/gallery-update''"

text \<open>The payload holds the diary id, the time, and each optional argument that is truthy.\<close>

definition webhook_payload ::
  "string \<Rightarrow> string \<Rightarrow> pyval \<Rightarrow> pyval \<Rightarrow> pyval \<Rightarrow> pyval \<Rightarrow> pyval \<Rightarrow> (string \<times> pyval) list" where
  "webhook_payload now a_diary_id a_emotion_keywords a_artwork_title a_guided_question
     a_vad_scores a_user_id =
    [(''diary_id'', PStr a_diary_id), (''updated_at'', PStr now)]
    @ (if truthy a_emotion_keywords then [(''keywords'', a_emotion_keywords)] else [])
    @ (if truthy a_artwork_title then [(''title'', a_artwork_title)] else [])
    @ (if truthy a_guided_question then [(''guided_question'', a_guided_question)] else [])
    @ (if truthy a_vad_scores then [(''vad_scores'', a_vad_scores)] else [])
    @ (if truthy a_user_id then [(''user_id'', a_user_id)] else [])"

text \<open>
  The body of the \<open>try\<close> block, with the HTTP exchange \<open>post\<close> as a function of the
  URL and the payload.
\<close>

definition send_gallery_item_update_try ::
  "EmoseumWebhookService \<Rightarrow> string \<Rightarrow> (string \<Rightarrow> (string \<times> pyval) list \<Rightarrow> http_outcome) \<Rightarrow>
   string \<Rightarrow> pyval \<Rightarrow> pyval \<Rightarrow> pyval \<Rightarrow> pyval \<Rightarrow> pyval \<Rightarrow> exn + (string \<times> pyval) list" where
  "send_gallery_item_update_try self now post a_diary_id a_emotion_keywords a_artwork_title
     a_guided_question a_vad_scores a_user_id =
    (case post (webhook_url self)
            (webhook_payload now a_diary_id a_emotion_keywords a_artwork_title
               a_guided_question a_vad_scores a_user_id) of
       Raised x \<Rightarrow> Inl x
     | Response status body_json body_text \<Rightarrow>
        (if status = 200 then
           (case body_json of
              Inl x \<Rightarrow> Inl x
            | Inr result \<Rightarrow>
               Inr [(''success'', PBool True),
                    (''message'', PStr ''Gallery item updated successfully''),
                    (''data'', result)])
         else
           (case body_text of
              Inl x \<Rightarrow> Inl x
            | Inr error_text \<Rightarrow>
               Inr [(''success'', PBool False),
                    (''error'', PStr (''HTTP '' @ show_nat status @ '': '' @ error_text)),
                    (''retry_recommended'', PBool True)])))"

text \<open>The two handlers turn every exception of the block into a result.\<close>

definition send_gallery_item_update ::
  "EmoseumWebhookService \<Rightarrow> string \<Rightarrow> (string \<Rightarrow> (string \<times> pyval) list \<Rightarrow> http_outcome) \<Rightarrow>
   string \<Rightarrow> pyval \<Rightarrow> pyval \<Rightarrow> pyval \<Rightarrow> pyval \<Rightarrow> pyval \<Rightarrow> (string \<times> pyval) list" where
  "send_gallery_item_update self now post a_diary_id a_emotion_keywords a_artwork_title
     a_guided_question a_vad_scores a_user_id =
    (case send_gallery_item_update_try self now post a_diary_id a_emotion_keywords
            a_artwork_title a_guided_question a_vad_scores a_user_id of
       Inr r \<Rightarrow> r
     | Inl TimeoutError \<Rightarrow>
        [(''success'', PBool False),
         (''error'', PStr ''Request timeout''),
         (''retry_recommended'', PBool True)]
     | Inl (OtherException msg) \<Rightarrow>
        [(''success'', PBool False),
         (''error'', PStr msg),
         (''retry_recommended'', PBool True)])"

text \<open>An answer with status 200 whose body decodes.\<close>

definition answered_ok :: "http_outcome \<Rightarrow> bool" where
  "answered_ok out =
    (case out of
       Response status body_json body_text \<Rightarrow>
         (status = 200 \<and> (case body_json of Inl x \<Rightarrow> False | Inr result \<Rightarrow> True))
     | Raised x \<Rightarrow> False)"

section \<open>The token count of a review\<close>



section \<open>A worked scenario\<close>

text \<open>
  One journey, used to run the operations on concrete data: a record is created for user
  \<open>u1\<close> with the scores \<open>(0.2, -0.1, 0.5)\<close> and the keywords calm and tired, then
  titled, then reviewed with a docent message that reports 42 tokens.
\<close>

definition scenario_env :: env where
  "scenario_env =
    \<lparr> file_stamp = ''20240101_120000'', item_stamp = ''20240101_120000'',
      created_iso = ''2024-01-01T12:00:00'', fresh_oid = ''65929e80a1b2c3d4e5f60718'',
      save_fault = None \<rparr>"

definition empty_world :: world where
  "empty_world =
    \<lparr> gallery_items = [], online = True, refuses = (\<lambda>fs. False), image_files = [],
      loop_running = True, tasks = [] \<rparr>"

definition scenario_review :: pyval where
  "scenario_review =
    PDict [(''content'', PStr ''...''),
           (''metadata'', PDict [(''token_usage'', PDict [(''total_tokens'', PInt 42)])])]"

definition scenario_doc :: "pyval \<Rightarrow> string \<Rightarrow> string \<Rightarrow> pyval \<Rightarrow> pyval \<Rightarrow> doc" where
  "scenario_doc vad title question review tokens =
    \<lparr> doc_oid = ''65929e80a1b2c3d4e5f60718'',
      doc_fields =
        [(''item_id'', PStr ''u1-20240101_120000''),
         (''user_id'', PStr ''u1''),
         (''diary_text'', PStr ''a quiet day''),
         (''emotion_keywords'', PList [PStr ''calm'', PStr ''tired'']),
         (''vad_scores'', vad),
         (''reflection_prompt'', PStr ''a calm lake''),
         (''reflection_image_path'',
          PStr ''data/gallery_images/reflection/u1_20240101_120000_reflection.png''),
         (''artwork_title'', PStr title),
         (''docent_message'', review),
         (''message_reactions'', PList []),
         (''guided_question'', PStr question),
         (''created_date'', PStr ''2024-01-01T12:00:00''),
         (''coping_style'', PStr ''balanced''),
         (''diary_id'', PStr ''d1''),
         (''gpt_prompt_used'', PBool True),
         (''gpt_prompt_tokens'', PInt 10),
         (''gpt_docent_used'', PBool True),
         (''gpt_docent_tokens'', tokens),
         (''prompt_generation_time'', PFloat 1.5),
         (''prompt_generation_method'', PStr ''gpt''),
         (''docent_generation_method'', PStr ''gpt'')] \<rparr>"

definition scenario_world :: "doc \<Rightarrow> world" where
  "scenario_world d =
    \<lparr> gallery_items = [d], online = True, refuses = (\<lambda>fs. False),
      image_files =
        [(''data/gallery_images/reflection/u1_20240101_120000_reflection.png'', ''png'')],
      loop_running = True, tasks = [] \<rparr>"

definition scenario_vad :: pyval where
  "scenario_vad = PList [PFloat 0.2, PFloat (- 0.1), PFloat 0.5]"

definition world_created :: world where
  "world_created = scenario_world (scenario_doc scenario_vad [] [] (PDict []) (PInt 0))"

definition world_titled :: world where
  "world_titled = scenario_world
     (scenario_doc scenario_vad ''Quiet Morning'' ''What made this moment calm?''
        (PDict []) (PInt 0))"

definition world_reviewed :: world where
  "world_reviewed = scenario_world
     (scenario_doc scenario_vad ''Quiet Morning'' ''What made this moment calm?''
        scenario_review (PInt 42))"

text \<open>The record that is read back once the scenario's title is set.\<close>

definition titled_item :: GalleryItem where
  "titled_item =
    GalleryItem_init ''2024-01-02T08:00:00'' ''65929e80a1b2c3d4e5f60718'' (PStr ''u1'')
      (PStr ''a quiet day'') (PList [PStr ''calm'', PStr ''tired''])
      (PTuple [PFloat 0.2, PFloat (- 0.1), PFloat 0.5]) (PStr ''a calm lake'')
      (PStr ''data/gallery_images/reflection/u1_20240101_120000_reflection.png'')
      (PStr ''Quiet Morning'') (PDict []) (PList []) (PStr ''What made this moment calm?'')
      (PStr ''2024-01-01T12:00:00'') (PStr ''balanced'') (PStr ''d1'') (PBool True) (PInt 10)
      (PBool True) (PInt 0) (PFloat 1.5) (PStr ''gpt'') (PStr ''gpt'')"

text \<open>The scenario's record reviewed before it was titled.\<close>

definition world_reviewed_untitled :: world where
  "world_reviewed_untitled = scenario_world
     (scenario_doc scenario_vad [] [] scenario_review (PInt 42))"


definition scenario_create ::
  "pyval \<Rightarrow> image_arg \<Rightarrow> (error + string) \<times> world" where
  "scenario_create vad img =
    create_gallery_item ''data/gallery_images'' scenario_env empty_world
      ''u1'' ''a quiet day'' (PList [PStr ''calm'', PStr ''tired'']) vad
      ''a calm lake'' img ''balanced'' 10 1.5 (Some ''d1'') None"

section \<open>Stores built from three scores\<close>

text \<open>
  The worlds the manager can build from an empty collection when every creation is given
  scores of three elements. The store may become unreachable and reachable again at any
  time, and an event loop may start or stop.
\<close>

definition three_scores :: "pyval \<Rightarrow> bool" where
  "three_scores v = (case py_iter v of Inl err \<Rightarrow> False | Inr xs \<Rightarrow> length xs = 3)"

inductive built_with_three_scores :: "world \<Rightarrow> bool" where
  start: "gallery_items w = [] \<Longrightarrow> built_with_three_scores w"
| created: "built_with_three_scores w \<Longrightarrow> three_scores vad \<Longrightarrow>
     built_with_three_scores
       (snd (create_gallery_item dir e w uid dt kw vad rp img cs pt pg did svc))"
| titled: "built_with_three_scores w \<Longrightarrow>
     built_with_three_scores (snd (complete_artwork_title w iid t q))"
| reviewed: "built_with_three_scores w \<Longrightarrow>
     built_with_three_scores (snd (add_docent_message w iid dm svc))"
| outage: "built_with_three_scores w \<Longrightarrow> built_with_three_scores (w\<lparr>online := b\<rparr>)"
| loop: "built_with_three_scores w \<Longrightarrow> built_with_three_scores (w\<lparr>loop_running := b\<rparr>)"

text \<open>A stored document whose scores, or their default, are a list of three.\<close>

definition doc_three :: "doc \<Rightarrow> bool" where
  "doc_three d =
    (\<exists>a b c. doc_get d ''vad_scores'' (PList [PFloat 0, PFloat 0, PFloat 0]) = PList [a, b, c])"



section \<open>Facts about the store operations\<close>



lemma update_first_found:
  "find P ds = Some d \<Longrightarrow> snd (update_first P f ds) = (if f d = d then 0 else 1)"
  by (induction ds) (auto split: if_splits)


lemma set_fields_oid: "doc_oid (set_fields kvs d) = doc_oid d"
  by (simp add: set_fields_def)

lemma set_fields_two:
  "map_of (doc_fields (set_fields [(k1, v1), (k2, v2)] d)) =
   (map_of (doc_fields d))(k1 \<mapsto> v1, k2 \<mapsto> v2)"
  by (simp add: set_fields_def update_conv')

lemma find_SomeD: "find P xs = Some x \<Longrightarrow> x \<in> set xs \<and> P x"
  by (induction xs) (auto split: if_splits)

lemmas scenario_defs =
  scenario_env_def empty_world_def scenario_review_def scenario_doc_def scenario_world_def
  scenario_vad_def world_created_def world_titled_def world_reviewed_def scenario_create_def
  world_reviewed_untitled_def

lemmas store_defs =
  update_one_def insert_one_def find_one_by_oid_def find_one_by_item_id_def has_item_id_def
  has_oid_def set_fields_def doc_get_def

section \<open>Facts about the encoding\<close>

lemma bson_encode_list_length:
  "bson_encode_list xs = Inr ys \<Longrightarrow> length ys = length xs"
  by (induction xs arbitrary: ys) (auto split: sum.splits)

lemma bson_encode_items_lookup:
  "bson_encode_items kvs = Inr kvs' \<Longrightarrow>
   map_of kvs' k =
     (case map_of kvs k of
        None \<Rightarrow> None
      | Some v \<Rightarrow> (case bson_encode v of Inl err \<Rightarrow> None | Inr v' \<Rightarrow> Some v'))"
  by (induction kvs arbitrary: kvs') (auto split: sum.splits if_splits)


lemma bson_encode_two:
  "CHR 0x00 \<notin> set k1 \<Longrightarrow> CHR 0x00 \<notin> set k2 \<Longrightarrow>
   bson_encode_items [(k1, v1), (k2, v2)] = Inr kvs' \<longleftrightarrow>
     (\<exists>v1' v2'. bson_encode v1 = Inr v1' \<and> bson_encode v2 = Inr v2'
        \<and> kvs' = [(k1, v1'), (k2, v2')])"
  by (auto split: sum.splits)

lemma new_item_doc_encoded:
  "bson_encode_items (new_item_doc iid uid dt kw vl rp path ciso cs did pt pg) = Inr fs' \<longleftrightarrow>
     (\<exists>kw' vl'. bson_encode kw = Inr kw' \<and> bson_encode vl = Inr vl'
        \<and> - (2 ^ 63) \<le> pt \<and> pt < 2 ^ 63
        \<and> fs' = new_item_doc iid uid dt kw' vl' rp path ciso cs did pt pg)"
  by (cases did) (auto simp add: new_item_doc_def opt_str_def split: sum.splits)

section \<open>Facts about creation\<close>

lemma hyphen_not_hex: "\<not> is_hex CHR ''-''"
  by (simp add: is_hex_def)

lemma ObjectId_hyphen: "ObjectId (a @ CHR ''-'' # b) = Inl InvalidId"
  by (simp add: ObjectId_def hyphen_not_hex)

lemma ObjectId_no_hyphen: "ObjectId s = Inr t \<Longrightarrow> CHR ''-'' \<notin> set s"
  by (auto simp add: ObjectId_def list_all_iff hyphen_not_hex split: if_splits)

lemma reflection_path_nonempty: "reflection_path_of dir uid stamp \<noteq> []"
  by (simp add: reflection_path_of_def path_div_def)

lemma new_item_doc_lookup:
  "map_of (new_item_doc iid uid dt kw vl rp path ciso cs did pt pg) ''item_id'' = Some (PStr iid)"
  "map_of (new_item_doc iid uid dt kw vl rp path ciso cs did pt pg) ''vad_scores'' = Some vl"
  "map_of (new_item_doc iid uid dt kw vl rp path ciso cs did pt pg) ''reflection_image_path''
     = Some (PStr path)"
  "map_of (new_item_doc iid uid dt kw vl rp path ciso cs did pt pg) ''artwork_title''
     = Some (PStr [])"
  "map_of (new_item_doc iid uid dt kw vl rp path ciso cs did pt pg) ''docent_message''
     = Some (PDict [])"
  by (simp_all add: new_item_doc_def)

text \<open>What a successful creation did.\<close>

lemma create_gallery_item_Inr:
  assumes "create_gallery_item dir e w uid dt kw vad rp img cs pt pg did svc = (Inr r, w')"
  shows "\<exists>content xs kw' ys.
      img = PILImage content \<and> save_fault e = None \<and> py_iter vad = Inr xs \<and> online w
    \<and> bson_encode kw = Inr kw' \<and> bson_encode_list xs = Inr ys
    \<and> \<not> list_ex (\<lambda>d. doc_oid d = fresh_oid e
           \<or> map_of (doc_fields d) ''item_id'' = Some (PStr r)) (gallery_items w)
    \<and> r = uid @ ''-'' @ item_stamp e
    \<and> online w'
    \<and> gallery_items w' = gallery_items w @
        [\<lparr>doc_oid = fresh_oid e,
          doc_fields = new_item_doc r uid dt kw' (PList ys) rp
             (reflection_path_of dir uid (file_stamp e)) (created_iso e) cs did pt pg\<rparr>]"
proof -
  from assms obtain content where img: "img = PILImage content" and sf: "save_fault e = None"
    by (auto simp add: create_gallery_item_def image_save_def Let_def
        split: image_arg.splits option.splits)
  from assms img sf obtain xs where xs: "py_iter vad = Inr xs"
    by (auto simp add: create_gallery_item_def image_save_def Let_def py_list_def
        split: sum.splits)
  let ?w1 = "w\<lparr>image_files :=
      AList.update (reflection_path_of dir uid (file_stamp e)) content (image_files w)\<rparr>"
  let ?r = "uid @ ''-'' @ item_stamp e"
  let ?doc = "new_item_doc ?r uid dt kw (PList xs) rp
      (reflection_path_of dir uid (file_stamp e)) (created_iso e) cs did pt pg"
  from assms img sf xs obtain oid w2 where ins: "insert_one ?w1 (fresh_oid e) ?doc = Inr (oid, w2)"
    by (auto simp add: create_gallery_item_def image_save_def Let_def py_list_def
        split: sum.splits)
  from assms img sf xs ins have r: "r = ?r" and docs: "gallery_items w' = gallery_items w2"
    and on: "online w' = online w2"
    by (auto simp add: create_gallery_item_def image_save_def Let_def py_list_def
        split: if_splits)
  from ins have onw: "online w"
    by (auto simp add: insert_one_def split: if_splits)
  from ins onw obtain fs' where enc: "bson_encode_items ?doc = Inr fs'"
    by (auto simp add: insert_one_def split: sum.splits)
  from enc obtain kw' vl' where k: "bson_encode kw = Inr kw'" "bson_encode (PList xs) = Inr vl'"
    "fs' = new_item_doc ?r uid dt kw' vl' rp
      (reflection_path_of dir uid (file_stamp e)) (created_iso e) cs did pt pg"
    by (auto simp add: new_item_doc_encoded)
  from k(2) obtain ys where ys: "bson_encode_list xs = Inr ys" "vl' = PList ys"
    by (auto split: sum.splits)
  from ins onw enc have nd: "\<not> list_ex (\<lambda>d. doc_oid d = fresh_oid e
           \<or> map_of (doc_fields d) ''item_id'' = map_of fs' ''item_id'') (gallery_items w)"
    and w2: "w2 = ?w1\<lparr>gallery_items :=
        gallery_items w @ [\<lparr>doc_oid = fresh_oid e, doc_fields = fs'\<rparr>]\<rparr>"
    by (auto simp add: insert_one_def split: if_splits)
  from k(3) have "map_of fs' ''item_id'' = Some (PStr ?r)"
    by (simp add: new_item_doc_lookup)
  with nd r have nd': "\<not> list_ex (\<lambda>d. doc_oid d = fresh_oid e
           \<or> map_of (doc_fields d) ''item_id'' = Some (PStr r)) (gallery_items w)"
    by simp
  from w2 onw on have on': "online w'" by simp
  from docs w2 k(3) ys(2) r have "gallery_items w' = gallery_items w @
        [\<lparr>doc_oid = fresh_oid e,
          doc_fields = new_item_doc r uid dt kw' (PList ys) rp
             (reflection_path_of dir uid (file_stamp e)) (created_iso e) cs did pt pg\<rparr>]"
    by simp
  with img sf xs onw k(1) ys(1) nd' r on' show ?thesis by blast
qed

lemma find_append_new:
  "\<not> list_ex P ds \<Longrightarrow> P d \<Longrightarrow> find P (ds @ [d]) = Some d"
  by (induction ds) auto

lemma get_gallery_item_after_create:
  assumes "create_gallery_item dir e w uid dt kw vad rp img cs pt pg did svc = (Inr r, w')"
  shows "\<exists>xs kw' ys. py_iter vad = Inr xs \<and> bson_encode_list xs = Inr ys
    \<and> get_by_object_id now w' r = Inl InvalidId
    \<and> get_by_item_id now w' r =
        (case doc_to_gallery_item now
          \<lparr>doc_oid = fresh_oid e,
            doc_fields = new_item_doc r uid dt kw' (PList ys) rp
              (reflection_path_of dir uid (file_stamp e)) (created_iso e) cs did pt pg\<rparr> of
           Inl err \<Rightarrow> Inl err | Inr it \<Rightarrow> Inr (Some it))"
proof -
  from create_gallery_item_Inr[OF assms] obtain content xs kw' ys where
    h: "py_iter vad = Inr xs" "online w'" "r = uid @ ''-'' @ item_stamp e"
       "\<not> list_ex (\<lambda>d. doc_oid d = fresh_oid e
           \<or> map_of (doc_fields d) ''item_id'' = Some (PStr r)) (gallery_items w)"
       "gallery_items w' = gallery_items w @
        [\<lparr>doc_oid = fresh_oid e,
          doc_fields = new_item_doc r uid dt kw' (PList ys) rp
             (reflection_path_of dir uid (file_stamp e)) (created_iso e) cs did pt pg\<rparr>]"
       "bson_encode_list xs = Inr ys"
    by blast
  let ?d = "\<lparr>doc_oid = fresh_oid e,
          doc_fields = new_item_doc r uid dt kw' (PList ys) rp
             (reflection_path_of dir uid (file_stamp e)) (created_iso e) cs did pt pg\<rparr>"
  have a: "get_by_object_id now w' r = Inl InvalidId"
    using h(3) by (simp add: get_by_object_id_def ObjectId_hyphen)
  from h(4) have nd: "\<not> list_ex (has_item_id r) (gallery_items w)"
    by (auto simp add: list_ex_iff has_item_id_def)
  have pd: "has_item_id r ?d"
    by (simp add: has_item_id_def new_item_doc_lookup)
  from find_append_new[OF nd pd] h(5)
  have f: "find (has_item_id r) (gallery_items w') = Some ?d" by simp
  have b: "get_by_item_id now w' r =
        (case doc_to_gallery_item now ?d of Inl err \<Rightarrow> Inl err | Inr it \<Rightarrow> Inr (Some it))"
    using h(2) f by (simp add: get_by_item_id_def find_one_by_item_id_def)
  from h(1) h(6) a b show ?thesis by blast
qed

lemma doc_to_gallery_item_new:
  "\<exists>it. doc_to_gallery_item now
      \<lparr>doc_oid = oid,
       doc_fields = new_item_doc r uid dt kw (PList xs) rp path ciso cs did pt pg\<rparr> = Inr it
    \<and> item_id it = oid
    \<and> vad_scores it = PTuple xs
    \<and> reflection_image_path it = PStr path
    \<and> artwork_title it = PStr []
    \<and> docent_message it = PDict []"
  by (simp add: doc_to_gallery_item_def doc_get_def new_item_doc_def py_tuple_def
        GalleryItem_init_def py_or_def)

lemma get_gallery_item_source:
  assumes "get_gallery_item now w x = Some it"
  shows "\<exists>d. d \<in> set (gallery_items w) \<and> doc_to_gallery_item now d = Inr it
     \<and> (has_item_id x d \<or> (\<exists>oid. ObjectId x = Inr oid \<and> has_oid oid d))"
  using assms
  by (auto simp add: get_gallery_item_def get_by_object_id_def get_by_item_id_def
        find_one_by_oid_def find_one_by_item_id_def
      split: sum.splits option.splits if_splits dest: find_SomeD)

lemma doc_to_gallery_item_id: "doc_to_gallery_item now d = Inr it \<Longrightarrow> item_id it = doc_oid d"
  by (auto simp add: doc_to_gallery_item_def GalleryItem_init_def split: sum.splits)

lemma scenario_create_run:
  "create_gallery_item ''data/gallery_images'' scenario_env empty_world
      ''u1'' ''a quiet day'' (PList [PStr ''calm'', PStr ''tired''])
      (PTuple [PFloat 0.2, PFloat (- 0.1), PFloat 0.5])
      ''a calm lake'' (PILImage ''png'') ''balanced'' 10 1.5 (Some ''d1'') None
     = (Inr ''u1-20240101_120000'', world_created)"
  by (simp add: create_gallery_item_def scenario_defs image_save_def py_list_def
        insert_one_def new_item_doc_def reflection_path_of_def path_div_def opt_str_def
        Let_def)

section \<open>Facts about the scores\<close>

lemma update_first_preserves:
  "(\<And>d. Q d \<Longrightarrow> Q (f d)) \<Longrightarrow> list_all Q ds \<Longrightarrow> list_all Q (fst (update_first P f ds))"
  by (induction ds) auto

lemma set_fields_keeps_scores:
  "k1 \<noteq> ''vad_scores'' \<Longrightarrow> k2 \<noteq> ''vad_scores'' \<Longrightarrow>
   doc_get (set_fields [(k1, v1), (k2, v2)] d) ''vad_scores'' dflt = doc_get d ''vad_scores'' dflt"
  by (simp add: doc_get_def set_fields_two)

lemma doc_three_set_fields:
  "k1 \<noteq> ''vad_scores'' \<Longrightarrow> k2 \<noteq> ''vad_scores'' \<Longrightarrow> doc_three d \<Longrightarrow>
   doc_three (set_fields [(k1, v1), (k2, v2)] d)"
  by (simp add: doc_three_def set_fields_keeps_scores)

lemma insert_one_docs:
  "insert_one w oid fs = Inr (oid', w') \<Longrightarrow>
   \<exists>fs'. bson_encode_items fs = Inr fs'
     \<and> gallery_items w' = gallery_items w @ [\<lparr>doc_oid = oid, doc_fields = fs'\<rparr>]"
  by (auto simp add: insert_one_def split: if_splits sum.splits)

lemma create_gallery_item_docs:
  "gallery_items (snd (create_gallery_item dir e w uid dt kw vad rp img cs pt pg did svc))
     = gallery_items w
   \<or> (\<exists>xs kw' ys. py_iter vad = Inr xs \<and> bson_encode_list xs = Inr ys
        \<and> gallery_items (snd (create_gallery_item dir e w uid dt kw vad rp img cs pt pg did svc))
          = gallery_items w @
             [\<lparr>doc_oid = fresh_oid e,
               doc_fields = new_item_doc (uid @ ''-'' @ item_stamp e) uid dt kw' (PList ys) rp
                  (reflection_path_of dir uid (file_stamp e)) (created_iso e) cs did pt pg\<rparr>])"
proof (cases "image_save w (save_fault e) img (reflection_path_of dir uid (file_stamp e))")
  case (Inl err)
  then show ?thesis by (simp add: create_gallery_item_def Let_def)
next
  case (Inr w1)
  then have w1: "gallery_items w1 = gallery_items w"
    by (auto simp add: image_save_def split: image_arg.splits option.splits)
  show ?thesis
  proof (cases "py_iter vad")
    case (Inl err)
    with Inr w1 show ?thesis by (simp add: create_gallery_item_def Let_def py_list_def)
  next
    case xs: (Inr xs)
    let ?doc = "new_item_doc (uid @ ''-'' @ item_stamp e) uid dt kw (PList xs) rp
                  (reflection_path_of dir uid (file_stamp e)) (created_iso e) cs did pt pg"
    show ?thesis
    proof (cases "insert_one w1 (fresh_oid e) ?doc")
      case (Inl err)
      with Inr xs w1 show ?thesis by (simp add: create_gallery_item_def Let_def py_list_def)
    next
      case ins: (Inr p)
      obtain oid' w2 where p: "p = (oid', w2)" by (cases p)
      from insert_one_docs[OF ins[unfolded p]] obtain fs' where
        enc: "bson_encode_items ?doc = Inr fs'"
        and d2: "gallery_items w2 = gallery_items w1 @ [\<lparr>doc_oid = fresh_oid e, doc_fields = fs'\<rparr>]"
        by blast
      from enc obtain kw' vl' where k: "bson_encode (PList xs) = Inr vl'"
        "fs' = new_item_doc (uid @ ''-'' @ item_stamp e) uid dt kw' vl' rp
          (reflection_path_of dir uid (file_stamp e)) (created_iso e) cs did pt pg"
        by (auto simp add: new_item_doc_encoded)
      from k(1) obtain ys where ys: "bson_encode_list xs = Inr ys" "vl' = PList ys"
        by (auto split: sum.splits)
      from Inr xs ins p have
        "gallery_items (snd (create_gallery_item dir e w uid dt kw vad rp img cs pt pg did svc))
          = gallery_items w2"
        by (simp add: create_gallery_item_def Let_def py_list_def)
      with d2 w1 k(2) ys xs show ?thesis by auto
    qed
  qed
qed

lemma complete_artwork_title_docs:
  "list_all doc_three (gallery_items w) \<Longrightarrow>
   list_all doc_three (gallery_items (snd (complete_artwork_title w iid t q)))"
  by (auto simp add: complete_artwork_title_def update_one_def
      intro!: update_first_preserves doc_three_set_fields)

lemma add_docent_message_docs:
  "list_all doc_three (gallery_items w) \<Longrightarrow>
   list_all doc_three (gallery_items (snd (add_docent_message w iid dm svc)))"
  by (auto simp add: add_docent_message_def update_one_def bson_encode_two
      split: sum.splits option.splits
      intro!: update_first_preserves doc_three_set_fields)

lemma built_docs_three:
  "built_with_three_scores w \<Longrightarrow> list_all doc_three (gallery_items w)"
proof (induction rule: built_with_three_scores.induct)
  case (start w)
  then show ?case by simp
next
  case (created w vad dir e uid dt kw rp img cs pt pg did svc)
  from created.hyps(2) obtain a b c where v: "py_iter vad = Inr [a, b, c]"
    by (auto simp add: three_scores_def length_Suc_conv numeral_3_eq_3 split: sum.splits)
  have n: "doc_three \<lparr>doc_oid = fresh_oid e,
               doc_fields = new_item_doc (uid @ ''-'' @ item_stamp e) uid dt kw' (PList ys) rp
                  (reflection_path_of dir uid (file_stamp e)) (created_iso e) cs did pt pg\<rparr>"
    if "bson_encode_list [a, b, c] = Inr ys" for kw' ys
  proof -
    from bson_encode_list_length[OF that] obtain a' b' c' where "ys = [a', b', c']"
      by (auto simp add: length_Suc_conv numeral_3_eq_3)
    then show ?thesis by (simp add: doc_three_def doc_get_def new_item_doc_lookup)
  qed
  from create_gallery_item_docs[of dir e w uid dt kw vad rp img cs pt pg did svc] v n created.IH
  show ?case by auto
next
  case (titled w iid t q)
  from titled.IH show ?case by (rule complete_artwork_title_docs)
next
  case (reviewed w iid dm svc)
  from reviewed.IH show ?case by (rule add_docent_message_docs)
next
  case (outage w b)
  then show ?case by simp
next
  case (loop w b)
  then show ?case by simp
qed

section \<open>Facts about the review\<close>



lemma set_fields_unchanged_iff:
  "k1 \<noteq> k2 \<Longrightarrow>
   set_fields [(k1, v1), (k2, v2)] d = d \<longleftrightarrow>
     (map_of (doc_fields d) k1 = Some v1 \<and> map_of (doc_fields d) k2 = Some v2)"
proof
  assume n: "k1 \<noteq> k2" and e: "set_fields [(k1, v1), (k2, v2)] d = d"
  have "map_of (doc_fields (set_fields [(k1, v1), (k2, v2)] d)) =
      (map_of (doc_fields d))(k1 \<mapsto> v1, k2 \<mapsto> v2)" by (rule set_fields_two)
  with e have "map_of (doc_fields d) = (map_of (doc_fields d))(k1 \<mapsto> v1, k2 \<mapsto> v2)" by simp
  then have "map_of (doc_fields d) k1 = ((map_of (doc_fields d))(k1 \<mapsto> v1, k2 \<mapsto> v2)) k1"
    and "map_of (doc_fields d) k2 = ((map_of (doc_fields d))(k1 \<mapsto> v1, k2 \<mapsto> v2)) k2"
    by simp_all
  with n show "map_of (doc_fields d) k1 = Some v1 \<and> map_of (doc_fields d) k2 = Some v2"
    by simp
next
  assume "map_of (doc_fields d) k1 = Some v1 \<and> map_of (doc_fields d) k2 = Some v2"
  then show "set_fields [(k1, v1), (k2, v2)] d = d"
    by (simp add: set_fields_def update_triv)
qed


lemma find_update_first:
  "find P ds = Some d \<Longrightarrow> P (f d) \<Longrightarrow> find P (fst (update_first P f ds)) = Some (f d)"
  by (induction ds) (auto split: if_splits)


section \<open>The next step\<close>

text \<open>
  C1. For every record whose image reference and title are strings and whose review
  message is a dict (the types the constructor declares), the next step is decided by the
  three fields alone, in fixed order: an empty image reference gives \<open>reflection\<close>;
  otherwise an empty title gives \<open>artwork_title\<close> (the title step); otherwise an empty
  review message gives \<open>docent_message\<close> (the review step); otherwise \<open>completed\<close>.
\<close>

theorem get_next_step_fixed_order:
  assumes "reflection_image_path r = PStr img"
    and "artwork_title r = PStr title"
    and "docent_message r = PDict review"
  shows "get_next_step r =
    (if img = [] then ''reflection''
     else if title = [] then ''artwork_title''
     else if review = [] then ''docent_message''
     else ''completed'')"
  using assms by (simp add: get_next_step_def get_completion_status_def)

theorem get_next_step_fixed_order_witness:
  "get_gallery_item ''2024-01-02T08:00:00'' world_titled ''u1-20240101_120000''
     = Some titled_item
   \<and> reflection_image_path titled_item
       = PStr ''data/gallery_images/reflection/u1_20240101_120000_reflection.png''
   \<and> artwork_title titled_item = PStr ''Quiet Morning''
   \<and> docent_message titled_item = PDict []
   \<and> get_next_step titled_item = ''docent_message''"
proof -
  have g: "get_gallery_item ''2024-01-02T08:00:00'' world_titled ''u1-20240101_120000''
     = Some titled_item"
    by (simp add: scenario_defs titled_item_def get_gallery_item_def get_by_object_id_def
          get_by_item_id_def ObjectId_def is_hex_def find_one_by_item_id_def has_item_id_def
          doc_to_gallery_item_def doc_get_def py_tuple_def)
  have a: "reflection_image_path titled_item
       = PStr ''data/gallery_images/reflection/u1_20240101_120000_reflection.png''"
    by (simp add: titled_item_def GalleryItem_init_def)
  have b: "artwork_title titled_item = PStr ''Quiet Morning''"
    by (simp add: titled_item_def GalleryItem_init_def)
  have c: "docent_message titled_item = PDict []"
    by (simp add: titled_item_def GalleryItem_init_def py_or_def)
  from get_next_step_fixed_order[OF a b c] g a b c show ?thesis by simp
qed

text \<open>
  Without the assumption on the types, the three tests are Python's truth tests, and the
  third one also asks for a dict: a docent message that is not a dict counts as absent.
\<close>

lemma get_next_step_any_value:
  "get_next_step r =
    (if \<not> truthy (reflection_image_path r) then ''reflection''
     else if \<not> truthy (artwork_title r) then ''artwork_title''
     else if \<not> (truthy (docent_message r) \<and> is_dict (docent_message r))
       then ''docent_message''
     else ''completed'')"
  by (simp add: get_next_step_def get_completion_status_def)

section \<open>Completing the title\<close>



section \<open>Pushing an update\<close>

text \<open>
  C4. \<open>send_gallery_item_update\<close> always returns a result. The result has
  \<open>success = True\<close> when the request was answered with status 200 and a body that
  decodes; in every other case (another status, a body that does not decode or cannot be
  read, a timeout, any other exception) it has \<open>success = False\<close> and
  \<open>retry_recommended = True\<close>.
\<close>

theorem send_gallery_item_update_result:
  "(answered_ok (post (webhook_url self) (webhook_payload now did kw ti gq vad uid))
      \<longrightarrow> map_of (send_gallery_item_update self now post did kw ti gq vad uid) ''success''
            = Some (PBool True))
   \<and> (\<not> answered_ok (post (webhook_url self) (webhook_payload now did kw ti gq vad uid))
      \<longrightarrow> map_of (send_gallery_item_update self now post did kw ti gq vad uid) ''success''
            = Some (PBool False)
        \<and> map_of (send_gallery_item_update self now post did kw ti gq vad uid)
            ''retry_recommended'' = Some (PBool True))"
  by (simp add: send_gallery_item_update_def send_gallery_item_update_try_def answered_ok_def
        split: http_outcome.split sum.split exn.split)

theorem send_gallery_item_update_result_witness:
  "answered_ok (Response 200 (Inr (PDict [])) (Inr ''{}''))
   \<and> map_of (send_gallery_item_update (EmoseumWebhookService_init ''http://localhost:3000/'')
        ''2024-01-01T12:00:05'' (\<lambda>url payload. Response 200 (Inr (PDict [])) (Inr ''{}''))
        ''d1'' (PList [PStr ''calm'']) PNone PNone PNone PNone) ''success'' = Some (PBool True)
   \<and> \<not> answered_ok (Response 500 (Inl (OtherException ''no json'')) (Inr ''boom''))
   \<and> send_gallery_item_update (EmoseumWebhookService_init ''http://localhost:3000/'')
        ''2024-01-01T12:00:05''
        (\<lambda>url payload. Response 500 (Inl (OtherException ''no json'')) (Inr ''boom''))
        ''d1'' (PList [PStr ''calm'']) PNone PNone PNone PNone
      = [(''success'', PBool False), (''error'', PStr ''HTTP 500: boom''),
         (''retry_recommended'', PBool True)]"
proof -
  have a: "answered_ok (Response 200 (Inr (PDict [])) (Inr ''{}''))"
    by (simp add: answered_ok_def)
  have b: "\<not> answered_ok (Response 500 (Inl (OtherException ''no json'')) (Inr ''boom''))"
    by (simp add: answered_ok_def)
  have c: "show_nat 500 = ''500''"
    by code_simp
  have d: "send_gallery_item_update (EmoseumWebhookService_init ''http://localhost:3000/'')
        ''2024-01-01T12:00:05''
        (\<lambda>url payload. Response 500 (Inl (OtherException ''no json'')) (Inr ''boom''))
        ''d1'' (PList [PStr ''calm'']) PNone PNone PNone PNone
      = [(''success'', PBool False), (''error'', PStr ''HTTP 500: boom''),
         (''retry_recommended'', PBool True)]"
    using c by (simp add: send_gallery_item_update_def send_gallery_item_update_try_def
        del: show_nat.simps)
  from send_gallery_item_update_result
    [of "\<lambda>url payload. Response 200 (Inr (PDict [])) (Inr ''{}'')"
        "EmoseumWebhookService_init ''http://localhost:3000/''" "''2024-01-01T12:00:05''"
        "''d1''" "PList [PStr ''calm'']" PNone PNone PNone PNone] a b d
  show ?thesis by simp
qed



section \<open>Creating a record\<close>

text \<open>
  C2. Whenever \<open>create_gallery_item\<close> succeeds and returns an item id, the record read
  back under that id has a non-empty image path, an empty title and an empty docent
  message, and its next step is \<open>artwork_title\<close> (the title step), not
  \<open>reflection\<close>.
\<close>

theorem create_gallery_item_next_step:
  assumes "create_gallery_item dir e w uid dt kw vad rp img cs pt pg did svc = (Inr r, w')"
  shows "\<exists>it p. get_gallery_item now w' r = Some it
    \<and> reflection_image_path it = PStr p \<and> p \<noteq> []
    \<and> artwork_title it = PStr []
    \<and> docent_message it = PDict []
    \<and> get_next_step it = ''artwork_title''"
proof -
  from get_gallery_item_after_create[OF assms, of now] obtain xs kw' ys where
    a: "get_by_object_id now w' r = Inl InvalidId"
    and b: "get_by_item_id now w' r =
        (case doc_to_gallery_item now
          \<lparr>doc_oid = fresh_oid e,
            doc_fields = new_item_doc r uid dt kw' (PList ys) rp
              (reflection_path_of dir uid (file_stamp e)) (created_iso e) cs did pt pg\<rparr> of
           Inl err \<Rightarrow> Inl err | Inr it \<Rightarrow> Inr (Some it))"
    by blast
  from doc_to_gallery_item_new[of now "fresh_oid e" r uid dt kw' ys rp
      "reflection_path_of dir uid (file_stamp e)" "created_iso e" cs did pt pg]
  obtain it where
    c: "doc_to_gallery_item now
          \<lparr>doc_oid = fresh_oid e,
            doc_fields = new_item_doc r uid dt kw' (PList ys) rp
              (reflection_path_of dir uid (file_stamp e)) (created_iso e) cs did pt pg\<rparr> = Inr it"
    and f: "reflection_image_path it = PStr (reflection_path_of dir uid (file_stamp e))"
       "artwork_title it = PStr []" "docent_message it = PDict []"
    by blast
  from a b c have g: "get_gallery_item now w' r = Some it"
    by (simp add: get_gallery_item_def)
  have ne: "reflection_path_of dir uid (file_stamp e) \<noteq> []"
    by (rule reflection_path_nonempty)
  from f ne have n: "get_next_step it = ''artwork_title''"
    by (simp add: get_next_step_def get_completion_status_def)
  from g f ne n show ?thesis by blast
qed

theorem create_gallery_item_next_step_witness:
  "scenario_create (PTuple [PFloat 0.2, PFloat (- 0.1), PFloat 0.5]) (PILImage ''png'')
     = (Inr ''u1-20240101_120000'', world_created)
   \<and> map_option get_next_step
        (get_gallery_item ''2024-01-02T08:00:00'' world_created ''u1-20240101_120000'')
       = Some ''artwork_title''"
  using create_gallery_item_next_step[OF scenario_create_run, of "''2024-01-02T08:00:00''"]
    scenario_create_run
  by (auto simp add: scenario_create_def)

section \<open>The id of a record read back\<close>

text \<open>
  C10. A record returned by \<open>get_gallery_item\<close> is the conversion of a stored document
  and carries that document's primary key as its \<open>item_id\<close>. The id that
  \<open>create_gallery_item\<close> returns is the readable one, \<open>user-timestamp\<close>; the key the
  driver generates is an ObjectId (24 hex digits). So the record fetched under the
  returned id has an \<open>item_id\<close> equal to the generated key and different from the id
  used to fetch it.
\<close>

theorem get_gallery_item_carries_primary_key:
  "(get_gallery_item now w x = Some it \<longrightarrow>
      (\<exists>d. d \<in> set (gallery_items w) \<and> doc_to_gallery_item now d = Inr it
         \<and> item_id it = doc_oid d))
   \<and> (create_gallery_item dir e w uid dt kw vad rp img cs pt pg did svc = (Inr r, w')
        \<and> ObjectId (fresh_oid e) = Inr (fresh_oid e) \<longrightarrow>
      (\<exists>it'. get_gallery_item now w' r = Some it'
         \<and> item_id it' = fresh_oid e \<and> item_id it' \<noteq> r))"
proof (intro conjI impI)
  assume "get_gallery_item now w x = Some it"
  from get_gallery_item_source[OF this] obtain d where
    "d \<in> set (gallery_items w)" "doc_to_gallery_item now d = Inr it" by blast
  then show "\<exists>d. d \<in> set (gallery_items w) \<and> doc_to_gallery_item now d = Inr it
         \<and> item_id it = doc_oid d"
    using doc_to_gallery_item_id by blast
next
  assume h: "create_gallery_item dir e w uid dt kw vad rp img cs pt pg did svc = (Inr r, w')
        \<and> ObjectId (fresh_oid e) = Inr (fresh_oid e)"
  then have c: "create_gallery_item dir e w uid dt kw vad rp img cs pt pg did svc = (Inr r, w')"
    and o: "ObjectId (fresh_oid e) = Inr (fresh_oid e)" by simp_all
  from get_gallery_item_after_create[OF c, of now] obtain xs kw' ys where
    a: "get_by_object_id now w' r = Inl InvalidId"
    and b: "get_by_item_id now w' r =
        (case doc_to_gallery_item now
          \<lparr>doc_oid = fresh_oid e,
            doc_fields = new_item_doc r uid dt kw' (PList ys) rp
              (reflection_path_of dir uid (file_stamp e)) (created_iso e) cs did pt pg\<rparr> of
           Inl err \<Rightarrow> Inl err | Inr it \<Rightarrow> Inr (Some it))"
    by blast
  from doc_to_gallery_item_new[of now "fresh_oid e" r uid dt kw' ys rp
      "reflection_path_of dir uid (file_stamp e)" "created_iso e" cs did pt pg]
  obtain it' where
    d: "doc_to_gallery_item now
          \<lparr>doc_oid = fresh_oid e,
            doc_fields = new_item_doc r uid dt kw' (PList ys) rp
              (reflection_path_of dir uid (file_stamp e)) (created_iso e) cs did pt pg\<rparr> = Inr it'"
    and i: "item_id it' = fresh_oid e"
    by blast
  from a b d have g: "get_gallery_item now w' r = Some it'"
    by (simp add: get_gallery_item_def)
  from create_gallery_item_Inr[OF c] have r: "r = uid @ ''-'' @ item_stamp e" by blast
  from ObjectId_no_hyphen[OF o] have "CHR ''-'' \<notin> set (fresh_oid e)" .
  moreover from r have "CHR ''-'' \<in> set r" by simp
  ultimately have "fresh_oid e \<noteq> r" by auto
  with g i show "\<exists>it'. get_gallery_item now w' r = Some it'
         \<and> item_id it' = fresh_oid e \<and> item_id it' \<noteq> r" by simp
qed

theorem get_gallery_item_carries_primary_key_witness:
  "scenario_create (PTuple [PFloat 0.2, PFloat (- 0.1), PFloat 0.5]) (PILImage ''png'')
     = (Inr ''u1-20240101_120000'', world_created)
   \<and> ObjectId (fresh_oid scenario_env) = Inr (fresh_oid scenario_env)
   \<and> map_option item_id
        (get_gallery_item ''2024-01-02T08:00:00'' world_created ''u1-20240101_120000'')
       = Some ''65929e80a1b2c3d4e5f60718''
   \<and> ''65929e80a1b2c3d4e5f60718'' \<noteq> ''u1-20240101_120000''"
proof -
  have oid: "ObjectId (fresh_oid scenario_env) = Inr (fresh_oid scenario_env)"
    by (simp add: ObjectId_def scenario_env_def is_hex_def hex_lower_def)
  have f: "fresh_oid scenario_env = ''65929e80a1b2c3d4e5f60718''"
    by (simp add: scenario_env_def)
  have run: "scenario_create (PTuple [PFloat 0.2, PFloat (- 0.1), PFloat 0.5]) (PILImage ''png'')
     = (Inr ''u1-20240101_120000'', world_created)"
    using scenario_create_run by (simp add: scenario_create_def)
  from get_gallery_item_carries_primary_key
    [THEN conjunct2, rule_format, OF conjI [OF scenario_create_run oid],
     of "''2024-01-02T08:00:00''"] oid f run
  show ?thesis by auto
qed


section \<open>What creation rejects\<close>

text \<open>
  The source has no validation step and no validation error: the scores reach the store
  through \<open>list(vad_scores)\<close> alone. A tuple of two floats is accepted, and the
  document is persisted with both.
\<close>

theorem create_gallery_item_two_scores_counterexample:
  "py_iter (PTuple [PFloat 0.2, PFloat (- 0.1)]) = Inr [PFloat 0.2, PFloat (- 0.1)]
   \<and> fst (scenario_create (PTuple [PFloat 0.2, PFloat (- 0.1)]) (PILImage ''png''))
       = Inr ''u1-20240101_120000''
   \<and> gallery_items (snd (scenario_create (PTuple [PFloat 0.2, PFloat (- 0.1)]) (PILImage ''png'')))
       = [scenario_doc (PList [PFloat 0.2, PFloat (- 0.1)]) [] [] (PDict []) (PInt 0)]"
  by (simp add: create_gallery_item_def scenario_defs image_save_def py_list_def
        insert_one_def new_item_doc_def reflection_path_of_def path_div_def opt_str_def
        Let_def)

text \<open>
  C3, as the code has it. An image that does not decode, and an argument that is not an
  image, make \<open>save\<close> raise before anything is persisted: the call fails and the world
  is unchanged. So does an image file that cannot be written. The scores are not checked.
  Scores that are not iterable make \<open>list(vad_scores)\<close> raise a \<open>TypeError\<close> after
  the image file has been written and before the insert. Iterable scores are not counted
  and their elements are not inspected: whenever the call returns an item id, the scores
  were iterable and the appended document holds every one of them as encoded, as many as
  were given.
\<close>

theorem create_gallery_item_rejections:
  "create_gallery_item dir e w uid dt kw vad rp UndecodableImage cs pt pg did svc
     = (Inl OSError, w)
   \<and> create_gallery_item dir e w uid dt kw vad rp (NotAnImage v) cs pt pg did svc
     = (Inl AttributeError, w)
   \<and> (save_fault e = Some err \<longrightarrow>
        create_gallery_item dir e w uid dt kw vad rp (PILImage c) cs pt pg did svc
          = (Inl err, w))
   \<and> (save_fault e = None \<and> py_iter vad = Inl TypeError \<longrightarrow>
        create_gallery_item dir e w uid dt kw vad rp (PILImage c) cs pt pg did svc
          = (Inl TypeError,
             w\<lparr>image_files :=
                 AList.update (reflection_path_of dir uid (file_stamp e)) c (image_files w)\<rparr>))
   \<and> (create_gallery_item dir e w uid dt kw vad rp img cs pt pg did svc = (Inr r, w') \<longrightarrow>
        (\<exists>xs kw' ys. py_iter vad = Inr xs \<and> bson_encode_list xs = Inr ys
           \<and> length ys = length xs
           \<and> gallery_items w' = gallery_items w @
               [\<lparr>doc_oid = fresh_oid e,
                 doc_fields = new_item_doc r uid dt kw' (PList ys) rp
                    (reflection_path_of dir uid (file_stamp e)) (created_iso e) cs did pt pg\<rparr>]))"
proof (intro conjI impI)
  show "create_gallery_item dir e w uid dt kw vad rp UndecodableImage cs pt pg did svc
     = (Inl OSError, w)"
    by (simp add: create_gallery_item_def image_save_def)
next
  show "create_gallery_item dir e w uid dt kw vad rp (NotAnImage v) cs pt pg did svc
     = (Inl AttributeError, w)"
    by (simp add: create_gallery_item_def image_save_def)
next
  assume "save_fault e = Some err"
  then show "create_gallery_item dir e w uid dt kw vad rp (PILImage c) cs pt pg did svc
          = (Inl err, w)"
    by (simp add: create_gallery_item_def image_save_def)
next
  assume "save_fault e = None \<and> py_iter vad = Inl TypeError"
  then show "create_gallery_item dir e w uid dt kw vad rp (PILImage c) cs pt pg did svc
          = (Inl TypeError,
             w\<lparr>image_files :=
                 AList.update (reflection_path_of dir uid (file_stamp e)) c (image_files w)\<rparr>)"
    by (simp add: create_gallery_item_def image_save_def py_list_def Let_def)
next
  assume h: "create_gallery_item dir e w uid dt kw vad rp img cs pt pg did svc = (Inr r, w')"
  from create_gallery_item_Inr[OF h] obtain content xs kw' ys where
    k: "py_iter vad = Inr xs" "bson_encode_list xs = Inr ys"
       "gallery_items w' = gallery_items w @
          [\<lparr>doc_oid = fresh_oid e,
            doc_fields = new_item_doc r uid dt kw' (PList ys) rp
               (reflection_path_of dir uid (file_stamp e)) (created_iso e) cs did pt pg\<rparr>]"
    by blast
  from k(2) have "length ys = length xs" by (rule bson_encode_list_length)
  with k show "\<exists>xs kw' ys. py_iter vad = Inr xs \<and> bson_encode_list xs = Inr ys
           \<and> length ys = length xs
           \<and> gallery_items w' = gallery_items w @
               [\<lparr>doc_oid = fresh_oid e,
                 doc_fields = new_item_doc r uid dt kw' (PList ys) rp
                    (reflection_path_of dir uid (file_stamp e)) (created_iso e) cs did pt pg\<rparr>]"
    by blast
qed

theorem create_gallery_item_rejections_witness:
  "scenario_create (PTuple [PFloat 0.2, PFloat (- 0.1), PFloat 0.5]) UndecodableImage
     = (Inl OSError, empty_world)
   \<and> scenario_create (PTuple [PFloat 0.2, PFloat (- 0.1), PFloat 0.5]) (NotAnImage PNone)
     = (Inl AttributeError, empty_world)
   \<and> save_fault (scenario_env\<lparr>save_fault := Some OSError\<rparr>) = Some OSError
   \<and> create_gallery_item ''data/gallery_images'' (scenario_env\<lparr>save_fault := Some OSError\<rparr>)
        empty_world ''u1'' ''a quiet day'' (PList [PStr ''calm'', PStr ''tired''])
        (PTuple [PFloat 0.2, PFloat (- 0.1), PFloat 0.5]) ''a calm lake'' (PILImage ''png'')
        ''balanced'' 10 1.5 (Some ''d1'') None
       = (Inl OSError, empty_world)
   \<and> save_fault scenario_env = None
   \<and> py_iter PNone = Inl TypeError
   \<and> fst (scenario_create PNone (PILImage ''png'')) = Inl TypeError
   \<and> gallery_items (snd (scenario_create PNone (PILImage ''png''))) = []
   \<and> image_files (snd (scenario_create PNone (PILImage ''png'')))
       = [(''data/gallery_images/reflection/u1_20240101_120000_reflection.png'', ''png'')]
   \<and> scenario_create (PList [PFloat 0.2]) (PILImage ''png'')
       = (Inr ''u1-20240101_120000'',
          scenario_world (scenario_doc (PList [PFloat 0.2]) [] [] (PDict []) (PInt 0)))
   \<and> (\<exists>xs kw' ys. py_iter (PList [PFloat 0.2]) = Inr xs \<and> bson_encode_list xs = Inr ys
         \<and> length ys = length xs \<and> length xs = 1
         \<and> gallery_items
             (scenario_world (scenario_doc (PList [PFloat 0.2]) [] [] (PDict []) (PInt 0)))
           = gallery_items empty_world @
               [\<lparr>doc_oid = fresh_oid scenario_env,
                 doc_fields = new_item_doc ''u1-20240101_120000'' ''u1'' ''a quiet day'' kw'
                    (PList ys) ''a calm lake''
                    (reflection_path_of ''data/gallery_images'' ''u1'' (file_stamp scenario_env))
                    (created_iso scenario_env) ''balanced'' (Some ''d1'') 10 1.5\<rparr>])"
proof -
  have a: "save_fault scenario_env = None \<and> py_iter PNone = Inl TypeError"
    by (simp add: scenario_env_def)
  have sf: "save_fault (scenario_env\<lparr>save_fault := Some OSError\<rparr>) = Some OSError" by simp
  have run: "create_gallery_item ''data/gallery_images'' scenario_env empty_world
      ''u1'' ''a quiet day'' (PList [PStr ''calm'', PStr ''tired'']) (PList [PFloat 0.2])
      ''a calm lake'' (PILImage ''png'') ''balanced'' 10 1.5 (Some ''d1'') None
     = (Inr ''u1-20240101_120000'',
        scenario_world (scenario_doc (PList [PFloat 0.2]) [] [] (PDict []) (PInt 0)))"
    by (simp add: create_gallery_item_def scenario_defs image_save_def py_list_def
          insert_one_def new_item_doc_def reflection_path_of_def path_div_def opt_str_def
          Let_def)
  note t = create_gallery_item_rejections
    [where dir = "''data/gallery_images''" and w = empty_world and uid = "''u1''"
       and dt = "''a quiet day''" and kw = "PList [PStr ''calm'', PStr ''tired'']"
       and rp = "''a calm lake''" and cs = "''balanced''" and pt = 10 and pg = "1.5"
       and did = "Some ''d1''" and svc = None and v = PNone and c = "''png''"
       and err = OSError]
  from t[where e = "scenario_env\<lparr>save_fault := Some OSError\<rparr>"
       and vad = "PTuple [PFloat 0.2, PFloat (- 0.1), PFloat 0.5]"] sf
  have g: "create_gallery_item ''data/gallery_images''
        (scenario_env\<lparr>save_fault := Some OSError\<rparr>)
        empty_world ''u1'' ''a quiet day'' (PList [PStr ''calm'', PStr ''tired''])
        (PTuple [PFloat 0.2, PFloat (- 0.1), PFloat 0.5]) ''a calm lake'' (PILImage ''png'')
        ''balanced'' 10 1.5 (Some ''d1'') None
       = (Inl OSError, empty_world)"
    by simp
  from t[where e = scenario_env and vad = "PTuple [PFloat 0.2, PFloat (- 0.1), PFloat 0.5]"]
  have c: "scenario_create (PTuple [PFloat 0.2, PFloat (- 0.1), PFloat 0.5]) UndecodableImage
     = (Inl OSError, empty_world)
    \<and> scenario_create (PTuple [PFloat 0.2, PFloat (- 0.1), PFloat 0.5]) (NotAnImage PNone)
     = (Inl AttributeError, empty_world)"
    by (simp add: scenario_create_def)
  from t[where e = scenario_env and vad = PNone] a
  have d: "scenario_create PNone (PILImage ''png'')
     = (Inl TypeError, empty_world\<lparr>image_files :=
          AList.update (reflection_path_of ''data/gallery_images'' ''u1''
             (file_stamp scenario_env)) ''png'' (image_files empty_world)\<rparr>)"
    by (simp add: scenario_create_def)
  from t[where e = scenario_env and vad = "PList [PFloat 0.2]" and img = "PILImage ''png''"
       and r = "''u1-20240101_120000''"
       and w' = "scenario_world (scenario_doc (PList [PFloat 0.2]) [] [] (PDict []) (PInt 0))"]
    run
  have f: "\<exists>xs kw' ys. py_iter (PList [PFloat 0.2]) = Inr xs \<and> bson_encode_list xs = Inr ys
         \<and> length ys = length xs \<and> length xs = 1
         \<and> gallery_items
             (scenario_world (scenario_doc (PList [PFloat 0.2]) [] [] (PDict []) (PInt 0)))
           = gallery_items empty_world @
               [\<lparr>doc_oid = fresh_oid scenario_env,
                 doc_fields = new_item_doc ''u1-20240101_120000'' ''u1'' ''a quiet day'' kw'
                    (PList ys) ''a calm lake''
                    (reflection_path_of ''data/gallery_images'' ''u1'' (file_stamp scenario_env))
                    (created_iso scenario_env) ''balanced'' (Some ''d1'') 10 1.5\<rparr>]"
    by auto
  from run have run': "scenario_create (PList [PFloat 0.2]) (PILImage ''png'')
       = (Inr ''u1-20240101_120000'',
          scenario_world (scenario_doc (PList [PFloat 0.2]) [] [] (PDict []) (PInt 0)))"
    by (simp add: scenario_create_def)
  from a sf c d f g run' show ?thesis
    by (simp add: empty_world_def scenario_env_def reflection_path_of_def path_div_def)
qed

text \<open>
  Nothing else stands between iterable scores and the store. When the image file can be
  written, the store is reachable, the keywords, the scores and the token count can be
  encoded, the document is not refused, no document has the same key or item id, and an
  event loop is running if a webhook service and a diary id are given, the call returns
  the item id, whatever the number of scores.
\<close>

lemma create_gallery_item_accepts:
  assumes "save_fault e = None" and "py_iter vad = Inr xs" and "online w"
    and "bson_encode kw = Inr kw'" and "bson_encode_list xs = Inr ys"
    and "- (2 ^ 63) \<le> pt" and "pt < 2 ^ 63"
    and "\<not> refuses w (new_item_doc (uid @ ''-'' @ item_stamp e) uid dt kw' (PList ys) rp
              (reflection_path_of dir uid (file_stamp e)) (created_iso e) cs did pt pg)"
    and "\<not> list_ex (\<lambda>d. doc_oid d = fresh_oid e
              \<or> map_of (doc_fields d) ''item_id'' = Some (PStr (uid @ ''-'' @ item_stamp e)))
            (gallery_items w)"
    and "svc = None \<or> \<not> truthy (opt_str did) \<or> loop_running w"
  shows "fst (create_gallery_item dir e w uid dt kw vad rp (PILImage c) cs pt pg did svc)
      = Inr (uid @ ''-'' @ item_stamp e)
    \<and> gallery_items
        (snd (create_gallery_item dir e w uid dt kw vad rp (PILImage c) cs pt pg did svc))
      = gallery_items w @
         [\<lparr>doc_oid = fresh_oid e,
           doc_fields = new_item_doc (uid @ ''-'' @ item_stamp e) uid dt kw' (PList ys) rp
              (reflection_path_of dir uid (file_stamp e)) (created_iso e) cs did pt pg\<rparr>]"
proof -
  let ?r = "uid @ ''-'' @ item_stamp e"
  let ?path = "reflection_path_of dir uid (file_stamp e)"
  let ?w1 = "w\<lparr>image_files := AList.update ?path c (image_files w)\<rparr>"
  let ?fs' = "new_item_doc ?r uid dt kw' (PList ys) rp ?path (created_iso e) cs did pt pg"
  let ?w2 = "?w1\<lparr>gallery_items := gallery_items w @ [\<lparr>doc_oid = fresh_oid e, doc_fields = ?fs'\<rparr>]\<rparr>"
  from assms have enc: "bson_encode_items
      (new_item_doc ?r uid dt kw (PList xs) rp ?path (created_iso e) cs did pt pg) = Inr ?fs'"
    by (simp add: new_item_doc_encoded)
  from assms enc have ins: "insert_one ?w1 (fresh_oid e)
      (new_item_doc ?r uid dt kw (PList xs) rp ?path (created_iso e) cs did pt pg)
      = Inr (fresh_oid e, ?w2)"
    by (simp add: insert_one_def new_item_doc_lookup)
  from assms have sv: "image_save w (save_fault e) (PILImage c) ?path = Inr ?w1"
    by (simp add: image_save_def)
  from assms have pl: "py_list vad = Inr (PList xs)" by (simp add: py_list_def)
  from assms have lp: "svc = None \<or> \<not> truthy (opt_str did) \<or> loop_running ?w2" by simp
  from sv pl ins lp
  have a: "fst (create_gallery_item dir e w uid dt kw vad rp (PILImage c) cs pt pg did svc)
      = Inr ?r"
    by (auto simp add: create_gallery_item_def Let_def simp del: append.simps)
  from sv pl ins lp
  have b: "gallery_items
            (snd (create_gallery_item dir e w uid dt kw vad rp (PILImage c) cs pt pg did svc))
          = gallery_items w @ [\<lparr>doc_oid = fresh_oid e, doc_fields = ?fs'\<rparr>]"
    by (auto simp add: create_gallery_item_def Let_def simp del: append.simps)
  from a b show ?thesis by simp
qed

text \<open>
  With a webhook service, a diary id and no running event loop, the call raises after the
  document was inserted: \<open>asyncio.create_task\<close> is inside the \<open>try\<close> and the
  handler re-raises.
\<close>

lemma create_gallery_item_no_loop:
  assumes "save_fault e = None" and "py_iter vad = Inr xs" and "online w"
    and "bson_encode kw = Inr kw'" and "bson_encode_list xs = Inr ys"
    and "- (2 ^ 63) \<le> pt" and "pt < 2 ^ 63"
    and "\<not> refuses w (new_item_doc (uid @ ''-'' @ item_stamp e) uid dt kw' (PList ys) rp
              (reflection_path_of dir uid (file_stamp e)) (created_iso e) cs did pt pg)"
    and "\<not> list_ex (\<lambda>d. doc_oid d = fresh_oid e
              \<or> map_of (doc_fields d) ''item_id'' = Some (PStr (uid @ ''-'' @ item_stamp e)))
            (gallery_items w)"
    and "did = Some s" and "s \<noteq> []" and "\<not> loop_running w"
  shows "fst (create_gallery_item dir e w uid dt kw vad rp (PILImage c) cs pt pg did (Some svc))
      = Inl RuntimeError
    \<and> gallery_items
        (snd (create_gallery_item dir e w uid dt kw vad rp (PILImage c) cs pt pg did (Some svc)))
      = gallery_items w @
         [\<lparr>doc_oid = fresh_oid e,
           doc_fields = new_item_doc (uid @ ''-'' @ item_stamp e) uid dt kw' (PList ys) rp
              (reflection_path_of dir uid (file_stamp e)) (created_iso e) cs did pt pg\<rparr>]"
proof -
  let ?r = "uid @ ''-'' @ item_stamp e"
  let ?path = "reflection_path_of dir uid (file_stamp e)"
  let ?w1 = "w\<lparr>image_files := AList.update ?path c (image_files w)\<rparr>"
  let ?fs' = "new_item_doc ?r uid dt kw' (PList ys) rp ?path (created_iso e) cs did pt pg"
  let ?w2 = "?w1\<lparr>gallery_items := gallery_items w @ [\<lparr>doc_oid = fresh_oid e, doc_fields = ?fs'\<rparr>]\<rparr>"
  from assms have enc: "bson_encode_items
      (new_item_doc ?r uid dt kw (PList xs) rp ?path (created_iso e) cs did pt pg) = Inr ?fs'"
    by (simp add: new_item_doc_encoded)
  from assms enc have ins: "insert_one ?w1 (fresh_oid e)
      (new_item_doc ?r uid dt kw (PList xs) rp ?path (created_iso e) cs did pt pg)
      = Inr (fresh_oid e, ?w2)"
    by (simp add: insert_one_def new_item_doc_lookup)
  from assms have sv: "image_save w (save_fault e) (PILImage c) ?path = Inr ?w1"
    by (simp add: image_save_def)
  from assms have pl: "py_list vad = Inr (PList xs)" by (simp add: py_list_def)
  from assms have lp: "truthy (opt_str did)" "\<not> loop_running ?w2"
    by (simp_all add: opt_str_def)
  from sv pl ins lp show ?thesis
    by (simp add: create_gallery_item_def Let_def del: append.simps)
qed

section \<open>The scores of a record\<close>

text \<open>
  Nothing in the source fixes the number of scores: a record created with two scores is
  read back with a tuple of two.
\<close>

theorem vad_scores_two_counterexample:
  "map_option vad_scores
     (get_gallery_item ''2024-01-02T08:00:00''
        (snd (scenario_create (PTuple [PFloat 0.2, PFloat (- 0.1)]) (PILImage ''png'')))
        ''u1-20240101_120000'')
   = Some (PTuple [PFloat 0.2, PFloat (- 0.1)])"
  by (simp add: create_gallery_item_def scenario_defs image_save_def py_list_def
        insert_one_def new_item_doc_def reflection_path_of_def path_div_def opt_str_def
        Let_def get_gallery_item_def get_by_object_id_def get_by_item_id_def ObjectId_def
        is_hex_def find_one_by_item_id_def has_item_id_def doc_to_gallery_item_def
        doc_get_def py_tuple_def GalleryItem_init_def py_or_def)


text \<open>
  C8, as the code has it. In every world built from an empty collection by creations that
  were given three scores (and by any title and review completions), every record that
  \<open>get_gallery_item\<close> returns has a tuple of exactly three scores.
\<close>

theorem vad_scores_three_when_created_with_three:
  assumes "built_with_three_scores w"
    and "get_gallery_item now w x = Some it"
  shows "\<exists>a b c. vad_scores it = PTuple [a, b, c]"
proof -
  from get_gallery_item_source[OF assms(2)] obtain d where
    d: "d \<in> set (gallery_items w)" "doc_to_gallery_item now d = Inr it" by blast
  from built_docs_three[OF assms(1)] d(1) have "doc_three d"
    by (simp add: list_all_iff)
  then obtain a b c where
    "doc_get d ''vad_scores'' (PList [PFloat 0, PFloat 0, PFloat 0]) = PList [a, b, c]"
    by (auto simp add: doc_three_def)
  with d(2) have "vad_scores it = PTuple [a, b, c]"
    by (auto simp add: doc_to_gallery_item_def py_tuple_def GalleryItem_init_def
        split: sum.splits)
  then show ?thesis by blast
qed


theorem vad_scores_three_when_created_with_three_witness:
  "built_with_three_scores world_created
   \<and> map_option vad_scores
       (get_gallery_item ''2024-01-02T08:00:00'' world_created ''u1-20240101_120000'')
     = Some (PTuple [PFloat 0.2, PFloat (- 0.1), PFloat 0.5])"
proof -
  have s: "built_with_three_scores empty_world"
    by (rule built_with_three_scores.start) (simp add: empty_world_def)
  have t: "three_scores (PTuple [PFloat 0.2, PFloat (- 0.1), PFloat 0.5])"
    by (simp add: three_scores_def)
  from scenario_create_run
    built_with_three_scores.created[OF s t, of "''data/gallery_images''" scenario_env
      "''u1''" "''a quiet day''" "PList [PStr ''calm'', PStr ''tired'']" "''a calm lake''"
      "PILImage ''png''" "''balanced''" 10 "1.5" "Some ''d1''" None]
  have b: "built_with_three_scores world_created"
    by simp
  have g: "get_gallery_item ''2024-01-02T08:00:00'' world_created ''u1-20240101_120000''
      = Some (GalleryItem_init ''2024-01-02T08:00:00'' ''65929e80a1b2c3d4e5f60718''
         (PStr ''u1'') (PStr ''a quiet day'') (PList [PStr ''calm'', PStr ''tired''])
         (PTuple [PFloat 0.2, PFloat (- 0.1), PFloat 0.5]) (PStr ''a calm lake'')
         (PStr ''data/gallery_images/reflection/u1_20240101_120000_reflection.png'')
         (PStr []) (PDict []) (PList []) (PStr []) (PStr ''2024-01-01T12:00:00'')
         (PStr ''balanced'') (PStr ''d1'') (PBool True) (PInt 10) (PBool True) (PInt 0)
         (PFloat 1.5) (PStr ''gpt'') (PStr ''gpt''))"
    by (simp add: scenario_defs get_gallery_item_def get_by_object_id_def get_by_item_id_def
          ObjectId_def is_hex_def find_one_by_item_id_def has_item_id_def
          doc_to_gallery_item_def doc_get_def py_tuple_def)
  from vad_scores_three_when_created_with_three[OF b g] b g show ?thesis
    by (simp add: GalleryItem_init_def)
qed

section \<open>Completing the review\<close>



section \<open>A review before the title\<close>

text \<open>
  The title is never consulted by \<open>add_docent_message\<close>, but success is
  \<open>modified_count > 0\<close>: on a record without title that already holds the review, the
  same call returns false.
\<close>

theorem add_docent_message_repeat_counterexample:
  "add_docent_message world_created ''u1-20240101_120000'' scenario_review None
     = (True, world_reviewed_untitled)
   \<and> find (has_item_id ''u1-20240101_120000'') (gallery_items world_reviewed_untitled)
       = Some (scenario_doc scenario_vad [] [] scenario_review (PInt 42))
   \<and> doc_get (scenario_doc scenario_vad [] [] scenario_review (PInt 42)) ''artwork_title''
       (PStr ''none'') = PStr []
   \<and> add_docent_message world_reviewed_untitled ''u1-20240101_120000'' scenario_review None
     = (False, world_reviewed_untitled)"
  by (simp add: add_docent_message_def docent_tokens_def scenario_defs store_defs)

text \<open>
  C9, as the code has it. For every existing record whose title is empty,
  \<open>add_docent_message\<close> returns true and the record then holds the review, its title
  still empty, under these conditions: the store is reachable; the review's metadata is
  well formed; the review and its token count can be encoded for the store; the record
  does not already hold that review with that count; no webhook service is passed, or an
  event loop is running; and the store refuses neither the two values nor the document
  they give.
\<close>

theorem add_docent_message_without_title:
  assumes "online w"
    and "find (has_item_id iid) (gallery_items w) = Some d"
    and "doc_get d ''artwork_title'' (PStr []) = PStr []"
    and "docent_tokens dm = Inr toks"
    and "bson_encode dm = Inr dm'"
    and "bson_encode toks = Inr toks'"
    and "map_of (doc_fields d) ''docent_message'' \<noteq> Some dm'
         \<or> map_of (doc_fields d) ''gpt_docent_tokens'' \<noteq> Some toks'"
    and "svc = None \<or> loop_running w"
    and "\<not> refuses w [(''docent_message'', dm'), (''gpt_docent_tokens'', toks')]"
    and "\<not> refuses w (doc_fields
           (set_fields [(''docent_message'', dm'), (''gpt_docent_tokens'', toks')] d))"
  shows "fst (add_docent_message w iid dm svc) = True
    \<and> find (has_item_id iid) (gallery_items (snd (add_docent_message w iid dm svc)))
        = Some (set_fields [(''docent_message'', dm'), (''gpt_docent_tokens'', toks')] d)
    \<and> doc_get (set_fields [(''docent_message'', dm'), (''gpt_docent_tokens'', toks')] d)
        ''docent_message'' (PDict []) = dm'
    \<and> doc_get (set_fields [(''docent_message'', dm'), (''gpt_docent_tokens'', toks')] d)
        ''artwork_title'' (PStr []) = PStr []"
proof -
  let ?kvs = "[(''docent_message'', dm'), (''gpt_docent_tokens'', toks')]"
  let ?u = "update_first (has_item_id iid) (set_fields ?kvs) (gallery_items w)"
  from assms(7) have ch: "set_fields ?kvs d \<noteq> d"
    by (simp add: set_fields_unchanged_iff)
  with update_first_found[OF assms(2), of "set_fields ?kvs"] have one: "snd ?u = 1" by simp
  from assms(2) have "has_item_id iid d" by (auto dest: find_SomeD)
  then have keep: "has_item_id iid (set_fields ?kvs d)"
    by (simp add: has_item_id_def set_fields_two)
  from find_update_first[of "has_item_id iid" "gallery_items w" d "set_fields ?kvs",
      OF assms(2) keep]
  have f: "find (has_item_id iid) (fst ?u) = Some (set_fields ?kvs d)" .
  from assms(1) assms(2) assms(5) assms(6) assms(9) assms(10) have up: "update_one w iid
      [(''docent_message'', dm), (''gpt_docent_tokens'', toks)]
      = Inr (snd ?u, w\<lparr>gallery_items := fst ?u\<rparr>)"
    by (simp add: update_one_def)
  from assms(4) up one assms(8) have a: "fst (add_docent_message w iid dm svc) = True"
    by (auto simp add: add_docent_message_def split: option.splits)
  from assms(4) up one assms(8)
  have b: "gallery_items (snd (add_docent_message w iid dm svc)) = fst ?u"
    by (auto simp add: add_docent_message_def split: option.splits)
  have c: "doc_get (set_fields ?kvs d) ''docent_message'' (PDict []) = dm'"
    by (simp add: doc_get_def set_fields_two)
  from assms(3) have e: "doc_get (set_fields ?kvs d) ''artwork_title'' (PStr []) = PStr []"
    by (simp add: doc_get_def set_fields_two)
  from a b f c e show ?thesis by simp
qed

theorem add_docent_message_without_title_witness:
  "online world_created
   \<and> find (has_item_id ''u1-20240101_120000'') (gallery_items world_created)
       = Some (scenario_doc scenario_vad [] [] (PDict []) (PInt 0))
   \<and> doc_get (scenario_doc scenario_vad [] [] (PDict []) (PInt 0)) ''artwork_title'' (PStr [])
       = PStr []
   \<and> docent_tokens scenario_review = Inr (PInt 42)
   \<and> bson_encode scenario_review = Inr scenario_review
   \<and> bson_encode (PInt 42) = Inr (PInt 42)
   \<and> loop_running world_created
   \<and> \<not> refuses world_created
         [(''docent_message'', scenario_review), (''gpt_docent_tokens'', PInt 42)]
   \<and> \<not> refuses world_created
         (doc_fields (scenario_doc scenario_vad [] [] scenario_review (PInt 42)))
   \<and> fst (add_docent_message world_created ''u1-20240101_120000'' scenario_review
        (Some (EmoseumWebhookService_init ''http://localhost:3000/''))) = True
   \<and> find (has_item_id ''u1-20240101_120000'')
        (gallery_items
          (snd (add_docent_message world_created ''u1-20240101_120000'' scenario_review
             (Some (EmoseumWebhookService_init ''http://localhost:3000/'')))))
       = Some (scenario_doc scenario_vad [] [] scenario_review (PInt 42))"
proof -
  have a: "online world_created" by (simp add: scenario_defs)
  have b: "find (has_item_id ''u1-20240101_120000'') (gallery_items world_created)
       = Some (scenario_doc scenario_vad [] [] (PDict []) (PInt 0))"
    by (simp add: scenario_defs has_item_id_def)
  have c: "doc_get (scenario_doc scenario_vad [] [] (PDict []) (PInt 0)) ''artwork_title''
       (PStr []) = PStr []"
    by (simp add: scenario_defs doc_get_def)
  have d: "docent_tokens scenario_review = Inr (PInt 42)"
    by (simp add: docent_tokens_def scenario_review_def)
  have e1: "bson_encode scenario_review = Inr scenario_review"
    by (simp add: scenario_review_def)
  have e2: "bson_encode (PInt 42) = Inr (PInt 42)" by simp
  have e: "map_of (doc_fields (scenario_doc scenario_vad [] [] (PDict []) (PInt 0)))
       ''docent_message'' \<noteq> Some scenario_review
     \<or> map_of (doc_fields (scenario_doc scenario_vad [] [] (PDict []) (PInt 0)))
       ''gpt_docent_tokens'' \<noteq> Some (PInt 42)"
    by (simp add: scenario_defs)
  have l: "loop_running world_created" by (simp add: scenario_defs)
  then have l': "Some (EmoseumWebhookService_init ''http://localhost:3000/'') = None
      \<or> loop_running world_created" by simp
  have f: "set_fields [(''docent_message'', scenario_review), (''gpt_docent_tokens'', PInt 42)]
       (scenario_doc scenario_vad [] [] (PDict []) (PInt 0))
     = scenario_doc scenario_vad [] [] scenario_review (PInt 42)"
    by (simp add: scenario_defs set_fields_def)
  have r1: "\<not> refuses world_created
         [(''docent_message'', scenario_review), (''gpt_docent_tokens'', PInt 42)]"
    by (simp add: scenario_defs)
  have r2: "\<not> refuses world_created (doc_fields
         (set_fields [(''docent_message'', scenario_review), (''gpt_docent_tokens'', PInt 42)]
            (scenario_doc scenario_vad [] [] (PDict []) (PInt 0))))"
    by (simp add: scenario_defs)
  from add_docent_message_without_title[OF a b c d e1 e2 e l' r1 r2] a b c d e1 e2 l f r1 r2
  show ?thesis by simp
qed

text \<open>
  With a webhook service and no running event loop the same call writes the review and
  still returns false: \<open>asyncio.create_task\<close> raises inside the \<open>try\<close>.
\<close>

lemma add_docent_message_no_loop:
  assumes "online w"
    and "find (has_item_id iid) (gallery_items w) = Some d"
    and "docent_tokens dm = Inr toks"
    and "bson_encode dm = Inr dm'"
    and "bson_encode toks = Inr toks'"
    and "map_of (doc_fields d) ''docent_message'' \<noteq> Some dm'
         \<or> map_of (doc_fields d) ''gpt_docent_tokens'' \<noteq> Some toks'"
    and "\<not> loop_running w"
    and "\<not> refuses w [(''docent_message'', dm'), (''gpt_docent_tokens'', toks')]"
    and "\<not> refuses w (doc_fields
           (set_fields [(''docent_message'', dm'), (''gpt_docent_tokens'', toks')] d))"
  shows "fst (add_docent_message w iid dm (Some svc)) = False
    \<and> find (has_item_id iid) (gallery_items (snd (add_docent_message w iid dm (Some svc))))
        = Some (set_fields [(''docent_message'', dm'), (''gpt_docent_tokens'', toks')] d)"
proof -
  let ?kvs = "[(''docent_message'', dm'), (''gpt_docent_tokens'', toks')]"
  let ?u = "update_first (has_item_id iid) (set_fields ?kvs) (gallery_items w)"
  from assms(6) have ch: "set_fields ?kvs d \<noteq> d"
    by (simp add: set_fields_unchanged_iff)
  with update_first_found[OF assms(2), of "set_fields ?kvs"] have one: "snd ?u = 1" by simp
  from assms(2) have "has_item_id iid d" by (auto dest: find_SomeD)
  then have keep: "has_item_id iid (set_fields ?kvs d)"
    by (simp add: has_item_id_def set_fields_two)
  from find_update_first[of "has_item_id iid" "gallery_items w" d "set_fields ?kvs",
      OF assms(2) keep]
  have f: "find (has_item_id iid) (fst ?u) = Some (set_fields ?kvs d)" .
  from assms(1) assms(2) assms(4) assms(5) assms(8) assms(9) have up: "update_one w iid
      [(''docent_message'', dm), (''gpt_docent_tokens'', toks)]
      = Inr (snd ?u, w\<lparr>gallery_items := fst ?u\<rparr>)"
    by (simp add: update_one_def)
  from assms(3) up one assms(7) f show ?thesis
    by (simp add: add_docent_message_def)
qed

section \<open>Resolving an identifier\<close>

text \<open>
  C7. \<open>get_gallery_item\<close> first resolves the identifier as a primary key: a valid
  ObjectId that matches a document gives that document's record. When the identifier is not
  a valid ObjectId, or no document has that key, the result is the lookup by \<open>item_id\<close>:
  the record of the first document with that item id, or nothing. When no document matches
  under either form the result is \<open>None\<close>, and so it is when the store cannot be
  reached: the function returns an optional record in every case and raises in none.
\<close>

theorem get_gallery_item_dual_key:
  "(online w \<and> ObjectId x = Inr oid \<and> find (has_oid oid) (gallery_items w) = Some d
      \<and> doc_to_gallery_item now d = Inr it
      \<longrightarrow> get_gallery_item now w x = Some it)
   \<and> (online w
      \<and> (ObjectId x = Inl InvalidId
         \<or> (\<exists>oid'. ObjectId x = Inr oid' \<and> find (has_oid oid') (gallery_items w) = None))
      \<longrightarrow> get_gallery_item now w x =
          (case find (has_item_id x) (gallery_items w) of
             None \<Rightarrow> None
           | Some d' \<Rightarrow>
              (case doc_to_gallery_item now d' of Inl err \<Rightarrow> None | Inr it' \<Rightarrow> Some it')))
   \<and> ((\<forall>oid'. ObjectId x = Inr oid' \<longrightarrow> find (has_oid oid') (gallery_items w) = None)
      \<and> find (has_item_id x) (gallery_items w) = None
      \<longrightarrow> get_gallery_item now w x = None)
   \<and> (\<not> online w \<longrightarrow> get_gallery_item now w x = None)"
  by (auto simp add: get_gallery_item_def get_by_object_id_def get_by_item_id_def
        find_one_by_oid_def find_one_by_item_id_def ObjectId_def
      split: sum.splits option.splits if_splits)

theorem get_gallery_item_dual_key_witness:
  "ObjectId ''65929E80A1B2C3D4E5F60718'' = Inr ''65929e80a1b2c3d4e5f60718''
   \<and> map_option item_id
       (get_gallery_item ''2024-01-02T08:00:00'' world_created ''65929E80A1B2C3D4E5F60718'')
     = Some ''65929e80a1b2c3d4e5f60718''
   \<and> ObjectId ''u1-20240101_120000'' = Inl InvalidId
   \<and> map_option item_id
       (get_gallery_item ''2024-01-02T08:00:00'' world_created ''u1-20240101_120000'')
     = Some ''65929e80a1b2c3d4e5f60718''
   \<and> get_gallery_item ''2024-01-02T08:00:00'' world_created ''000000000000000000000000'' = None
   \<and> get_gallery_item ''2024-01-02T08:00:00'' (world_created\<lparr>online := False\<rparr>)
       ''u1-20240101_120000'' = None"
proof -
  let ?now = "''2024-01-02T08:00:00''"
  let ?d = "scenario_doc scenario_vad [] [] (PDict []) (PInt 0)"
  have on: "online world_created" by (simp add: scenario_defs)
  have o1: "ObjectId ''65929E80A1B2C3D4E5F60718'' = Inr ''65929e80a1b2c3d4e5f60718''"
    by (simp add: ObjectId_def is_hex_def hex_lower_def)
  have o2: "ObjectId ''u1-20240101_120000'' = Inl InvalidId"
    by (simp add: ObjectId_def)
  have o3: "ObjectId ''000000000000000000000000'' = Inr ''000000000000000000000000''"
    by (simp add: ObjectId_def is_hex_def hex_lower_def)
  have f1: "find (has_oid ''65929e80a1b2c3d4e5f60718'') (gallery_items world_created) = Some ?d"
    by (simp add: scenario_defs has_oid_def)
  have f2: "find (has_item_id ''u1-20240101_120000'') (gallery_items world_created) = Some ?d"
    by (simp add: scenario_defs has_item_id_def)
  have f3: "find (has_oid ''000000000000000000000000'') (gallery_items world_created) = None"
    by (simp add: scenario_defs has_oid_def)
  have f4: "find (has_item_id ''000000000000000000000000'') (gallery_items world_created) = None"
    by (simp add: scenario_defs has_item_id_def)
  obtain it where c: "doc_to_gallery_item ?now ?d = Inr it"
    and i: "item_id it = ''65929e80a1b2c3d4e5f60718''"
    by (simp add: scenario_defs doc_to_gallery_item_def doc_get_def py_tuple_def
          GalleryItem_init_def)
  note t = get_gallery_item_dual_key
  from t[of world_created "''65929E80A1B2C3D4E5F60718''" "''65929e80a1b2c3d4e5f60718''" ?d
          ?now it] on o1 f1 c i
  have r1: "map_option item_id
       (get_gallery_item ?now world_created ''65929E80A1B2C3D4E5F60718'')
     = Some ''65929e80a1b2c3d4e5f60718''" by simp
  from t[of world_created "''u1-20240101_120000''" _ _ ?now] on o2 f2 c i
  have r2: "map_option item_id
       (get_gallery_item ?now world_created ''u1-20240101_120000'')
     = Some ''65929e80a1b2c3d4e5f60718''" by simp
  from t[of world_created "''000000000000000000000000''" _ _ ?now] o3 f3 f4
  have r3: "get_gallery_item ?now world_created ''000000000000000000000000'' = None" by simp
  from t[of "world_created\<lparr>online := False\<rparr>" "''u1-20240101_120000''" _ _ ?now]
  have r4: "get_gallery_item ?now (world_created\<lparr>online := False\<rparr>)
       ''u1-20240101_120000'' = None" by simp
  from o1 o2 r1 r2 r3 r4 show ?thesis by simp
qed


end
